theory Spec2Isabelle
  imports Complex_Main "HOL-Library.Sublist"
begin

section \<open>Poster data model (types.ts)\<close>

text \<open>
  JavaScript numbers are modelled as \<^typ>\<open>real\<close>: arithmetic is exact, and the non-finite
  values \<open>Infinity\<close> and \<open>NaN\<close> do not exist. The only way the interaction code can produce
  them from finite inputs is a division by zero, so every theorem that goes through a
  division carries the hypothesis that the divisor is not zero.
  Strings are byte strings; the character classes below are the ASCII ones.
\<close>

datatype AppMode = VERSE | EVENT

datatype TemplateStyle = MINIMAL | NATURE | ABSTRACT | GOLDEN | GRADIENT

datatype LayoutType = RIGHT_CORNER | LEFT_CORNER | BOTTOM_MIDDLE | CINEMATIC

datatype PosterAspect = PORTRAIT | SQUARE | LANDSCAPE

datatype TextEffect =
  NONE | SHADOW_SOFT | SHADOW_HARD | OUTLINE | NEON | RETRO | ELEGANT | GLITCH

text \<open>An object \<open>{ x: number; y: number }\<close>; the fields are named \<open>xc\<close> and \<open>yc\<close>.\<close>

record point =
  xc :: real
  yc :: real

text \<open>The interface \<open>PosterData\<close>, field by field; \<open>id\<close> is named \<open>posterId\<close>.\<close>

record PosterData =
  posterId :: "string option"
  userId :: "string option"
  mode :: AppMode
  verseReference :: string
  verseReferenceEnglish :: string
  verseText :: string
  eventTitle :: string
  eventDetails :: string
  language :: string
  interfaceLanguage :: string
  template :: TemplateStyle
  layout :: LayoutType
  posterAspect :: PosterAspect
  backgroundImageUrl :: "string option"
  uploadedPhotoUrl :: "string option"
  logoUrl :: "string option"
  customName :: string
  fontFamily :: string
  textColor :: string
  textEffect :: TextEffect
  textPosition :: point
  textWidth :: real
  textScale :: real
  logoPosition :: point
  logoWidth :: real
  photoPosition :: point
  photoWidth :: real

text \<open>
  A \<open>Partial<PosterData>\<close> object literal is the list of its key/value pairs. Only the keys
  that the pointer handlers write are represented.
\<close>

datatype field_update =
  Set_textPosition point
  | Set_textWidth real
  | Set_textScale real
  | Set_logoPosition point
  | Set_logoWidth real
  | Set_photoPosition point
  | Set_photoWidth real

type_synonym PartialPosterData = "field_update list"

fun set_field :: "field_update \<Rightarrow> PosterData \<Rightarrow> PosterData" where
  "set_field (Set_textPosition v) d = d\<lparr>textPosition := v\<rparr>"
| "set_field (Set_textWidth v) d = d\<lparr>textWidth := v\<rparr>"
| "set_field (Set_textScale v) d = d\<lparr>textScale := v\<rparr>"
| "set_field (Set_logoPosition v) d = d\<lparr>logoPosition := v\<rparr>"
| "set_field (Set_logoWidth v) d = d\<lparr>logoWidth := v\<rparr>"
| "set_field (Set_photoPosition v) d = d\<lparr>photoPosition := v\<rparr>"
| "set_field (Set_photoWidth v) d = d\<lparr>photoWidth := v\<rparr>"

text \<open>\<open>updateData\<close> of the application: \<open>setData(prev => ({ ...prev, ...newData }))\<close>.\<close>

definition updateData :: "PosterData \<Rightarrow> PartialPosterData \<Rightarrow> PosterData" where
  "updateData prev newData = fold set_field newData prev"

section \<open>Pointer interaction (PosterPreview.tsx)\<close>

datatype layer = Text | Logo | Photo

datatype action = Drag | Resize | Scale

text \<open>The five \<open>useState\<close> cells of the component.\<close>

record ctrl =
  activeDragId :: "layer option"
  dragAction :: action
  dragStart :: point
  initialScale :: real
  initialWidth :: real

text \<open>
  The props other than \<open>data\<close>: the display \<open>scale\<close> (default 1) and whether the
  optional callback \<open>onUpdateData\<close> was supplied (the application passes \<open>updateData\<close>).
\<close>

record props =
  scale :: real
  onUpdateData :: bool

record mouse_event =
  clientX :: real
  clientY :: real

record dimensions =
  width :: real
  height :: real

text \<open>
  The table \<open>POSTER_DIMENSIONS\<close> lives in the constants module, which is not part of the
  modelled sources; it is a parameter \<open>dims\<close>, a partial map from aspect to dimensions.
\<close>

type_synonym dimension_table = "PosterAspect \<Rightarrow> dimensions option"

definition dimensions_of :: "dimension_table \<Rightarrow> PosterData \<Rightarrow> dimensions" where
  "dimensions_of dims d =
     (case dims (posterAspect d) of
        None \<Rightarrow> \<lparr>width = 400, height = 500\<rparr>
      | Some dm \<Rightarrow> dm)"

definition baseWidth :: "dimension_table \<Rightarrow> PosterData \<Rightarrow> real" where
  "baseWidth dims d = width (dimensions_of dims d)"

definition baseHeight :: "dimension_table \<Rightarrow> PosterData \<Rightarrow> real" where
  "baseHeight dims d = height (dimensions_of dims d)"

text \<open>The operator \<open>a || b\<close> on numbers: \<open>0\<close> is falsy.\<close>

definition js_or :: "real \<Rightarrow> real \<Rightarrow> real" where
  "js_or a b = (if a = 0 then b else a)"

text \<open>\<open>Math.max(lo, Math.min(hi, v))\<close>.\<close>

definition clamp :: "real \<Rightarrow> real \<Rightarrow> real \<Rightarrow> real" where
  "clamp lo hi v = max lo (min hi v)"

definition handleMouseDown ::
  "PosterData \<Rightarrow> ctrl \<Rightarrow> mouse_event \<Rightarrow> layer \<Rightarrow> action \<Rightarrow> ctrl" where
  "handleMouseDown d c e ident act =
     (let c1 = c\<lparr>activeDragId := Some ident, dragAction := act,
                 dragStart := \<lparr>xc = clientX e, yc = clientY e\<rparr>\<rparr>;
          c2 = (if act = Scale \<and> ident = Text
                then c1\<lparr>initialScale := js_or (textScale d) 1\<rparr> else c1)
      in if act = Resize \<or> (act = Scale \<and> ident \<noteq> Text)
         then (case ident of
                 Text \<Rightarrow> c2\<lparr>initialWidth := textWidth d\<rparr>
               | Logo \<Rightarrow> c2\<lparr>initialWidth := js_or (logoWidth d) 16\<rparr>
               | Photo \<Rightarrow> c2\<lparr>initialWidth := js_or (photoWidth d) 24\<rparr>)
         else c2)"

text \<open>
  The body of \<open>handleMouseMove\<close> from the percentage conversion to the end of the dispatch
  on layer and action: the argument of the one \<open>onUpdateData\<close> call it makes, as a function
  of the display-scale-corrected pixel deltas. This is the operation the specification
  calls \<open>applyDelta\<close>.
\<close>

definition applyDelta ::
  "dimension_table \<Rightarrow> ctrl \<Rightarrow> PosterData \<Rightarrow> layer \<Rightarrow> real \<Rightarrow> real \<Rightarrow> PartialPosterData" where
  "applyDelta dims c d ident deltaX deltaY =
     (let deltaXPercent = (deltaX / baseWidth dims d) * 100;
          deltaYPercent = (deltaY / baseHeight dims d) * 100
      in case ident of
           Text \<Rightarrow>
             (case dragAction c of
                Drag \<Rightarrow>
                  [Set_textPosition
                     \<lparr>xc = clamp 0 100 (xc (textPosition d) + deltaXPercent),
                      yc = clamp 0 100 (yc (textPosition d) + deltaYPercent)\<rparr>]
              | Resize \<Rightarrow>
                  [Set_textWidth (clamp 20 100 (initialWidth c + deltaXPercent))]
              | Scale \<Rightarrow>
                  (let scaleDelta = (deltaX + deltaY) * 0.005;
                       newScale = clamp 0.5 3.0 (initialScale c + scaleDelta)
                   in [Set_textScale newScale]))
         | Logo \<Rightarrow>
             (case dragAction c of
                Drag \<Rightarrow>
                  [Set_logoPosition
                     \<lparr>xc = clamp 0 100 (js_or (xc (logoPosition d)) 10 + deltaXPercent),
                      yc = clamp 0 100 (js_or (yc (logoPosition d)) 10 + deltaYPercent)\<rparr>]
              | _ \<Rightarrow>
                  [Set_logoWidth (clamp 5 60 (initialWidth c + deltaXPercent))])
         | Photo \<Rightarrow>
             (case dragAction c of
                Drag \<Rightarrow>
                  [Set_photoPosition
                     \<lparr>xc = clamp 0 100 (js_or (xc (photoPosition d)) 90 + deltaXPercent),
                      yc = clamp 0 100 (js_or (yc (photoPosition d)) 10 + deltaYPercent)\<rparr>]
              | _ \<Rightarrow>
                  [Set_photoWidth (clamp 10 90 (initialWidth c + deltaXPercent))]))"

text \<open>
  One \<open>mousemove\<close> event. The handler reads the state cells and \<open>data\<close> of the latest
  render; events are processed one per render, so each sees the state its predecessor
  left. The result is the new controller state and the new poster data.
\<close>

definition handleMouseMove ::
  "props \<Rightarrow> dimension_table \<Rightarrow> ctrl \<Rightarrow> PosterData \<Rightarrow> mouse_event \<Rightarrow> ctrl \<times> PosterData" where
  "handleMouseMove p dims c d e =
     (case activeDragId c of
        None \<Rightarrow> (c, d)
      | Some ident \<Rightarrow>
          if \<not> onUpdateData p then (c, d)
          else
            (let deltaX = (clientX e - xc (dragStart c)) / scale p;
                 deltaY = (clientY e - yc (dragStart c)) / scale p;
                 d' = updateData d (applyDelta dims c d ident deltaX deltaY);
                 c' = (if dragAction c = Drag
                       then c\<lparr>dragStart := \<lparr>xc = clientX e, yc = clientY e\<rparr>\<rparr>
                       else c)
             in (c', d')))"

definition handleMouseUp :: "ctrl \<Rightarrow> ctrl" where
  "handleMouseUp c = c\<lparr>activeDragId := None\<rparr>"

text \<open>The bounds of the layer geometry, and the zero-free divisors of the conversion.\<close>

definition in_bounds :: "PosterData \<Rightarrow> bool" where
  "in_bounds d \<longleftrightarrow>
     0 \<le> xc (textPosition d) \<and> xc (textPosition d) \<le> 100 \<and>
     0 \<le> yc (textPosition d) \<and> yc (textPosition d) \<le> 100 \<and>
     0 \<le> xc (logoPosition d) \<and> xc (logoPosition d) \<le> 100 \<and>
     0 \<le> yc (logoPosition d) \<and> yc (logoPosition d) \<le> 100 \<and>
     0 \<le> xc (photoPosition d) \<and> xc (photoPosition d) \<le> 100 \<and>
     0 \<le> yc (photoPosition d) \<and> yc (photoPosition d) \<le> 100 \<and>
     20 \<le> textWidth d \<and> textWidth d \<le> 100 \<and>
     5 \<le> logoWidth d \<and> logoWidth d \<le> 60 \<and>
     10 \<le> photoWidth d \<and> photoWidth d \<le> 90 \<and>
     0.5 \<le> textScale d \<and> textScale d \<le> 3.0"

definition canvas_ok :: "dimension_table \<Rightarrow> PosterData \<Rightarrow> bool" where
  "canvas_ok dims d \<longleftrightarrow> baseWidth dims d \<noteq> 0 \<and> baseHeight dims d \<noteq> 0"

text \<open>The initial poster of the application; its background and font come from the
  constants module and are parameters.\<close>

definition initialData :: "string option \<Rightarrow> string \<Rightarrow> PosterData" where
  "initialData defaultBackground defaultFont =
     \<lparr>posterId = None, userId = None, mode = VERSE,
      verseReference = ''John 3:16'', verseReferenceEnglish = ''John 3:16'',
      verseText = ''For God so loved the world, that he gave his one and only Son, that whoever believes in him should not perish, but have eternal life.'',
      eventTitle = ''Sunday Service'',
      eventDetails = ''Sunday, 9:00 AM'' @ [CHR 0x0A] @ ''Main Sanctuary'' @ [CHR 0x0A] @ ''Pastor John Doe'',
      language = ''English'', interfaceLanguage = ''en'',
      template = NATURE, layout = RIGHT_CORNER, posterAspect = PORTRAIT,
      backgroundImageUrl = defaultBackground, uploadedPhotoUrl = None, logoUrl = None,
      customName = [], fontFamily = defaultFont, textColor = ''#FFFFFF'',
      textEffect = SHADOW_SOFT,
      textPosition = \<lparr>xc = 50, yc = 50\<rparr>, textWidth = 80, textScale = 1.0,
      logoPosition = \<lparr>xc = 10, yc = 10\<rparr>, logoWidth = 16,
      photoPosition = \<lparr>xc = 90, yc = 10\<rparr>, photoWidth = 24\<rparr>"

text \<open>A gesture as a list of events, run from a controller state and a poster.\<close>

datatype pointer_event =
  MouseDown layer action mouse_event
  | MouseMove mouse_event
  | MouseUp

fun step ::
  "props \<Rightarrow> dimension_table \<Rightarrow> ctrl \<times> PosterData \<Rightarrow> pointer_event \<Rightarrow> ctrl \<times> PosterData" where
  "step p dims (c, d) (MouseDown ident act e) = (handleMouseDown d c e ident act, d)"
| "step p dims (c, d) (MouseMove e) = handleMouseMove p dims c d e"
| "step p dims (c, d) MouseUp = (handleMouseUp c, d)"

definition run ::
  "props \<Rightarrow> dimension_table \<Rightarrow> ctrl \<times> PosterData \<Rightarrow> pointer_event list \<Rightarrow> ctrl \<times> PosterData" where
  "run p dims s evs = fold (\<lambda>ev s'. step p dims s' ev) evs s"

text \<open>The initial values of the state cells, and the props the application passes.\<close>

definition initialCtrl :: ctrl where
  "initialCtrl =
     \<lparr>activeDragId = None, dragAction = Drag, dragStart = \<lparr>xc = 0, yc = 0\<rparr>,
      initialScale = 1, initialWidth = 0\<rparr>"

definition appProps :: props where
  "appProps = \<lparr>scale = 1, onUpdateData = True\<rparr>"


section \<open>Keyword highlighting (PosterPreview.tsx)\<close>

definition is_upper :: "char \<Rightarrow> bool" where
  "is_upper ch \<longleftrightarrow> 65 \<le> (of_char ch :: nat) \<and> (of_char ch :: nat) \<le> 90"

definition is_lower :: "char \<Rightarrow> bool" where
  "is_lower ch \<longleftrightarrow> 97 \<le> (of_char ch :: nat) \<and> (of_char ch :: nat) \<le> 122"

definition toLowerChar :: "char \<Rightarrow> char" where
  "toLowerChar ch = (if is_upper ch then char_of ((of_char ch :: nat) + 32) else ch)"

definition toUpperChar :: "char \<Rightarrow> char" where
  "toUpperChar ch = (if is_lower ch then char_of ((of_char ch :: nat) - 32) else ch)"

definition toLowerCase :: "string \<Rightarrow> string" where
  "toLowerCase s = map toLowerChar s"

definition toUpperCase :: "string \<Rightarrow> string" where
  "toUpperCase s = map toUpperChar s"

text \<open>The class \<open>\s\<close>: space, tab, line feed, vertical tab, form feed, carriage return.\<close>

definition is_space :: "char \<Rightarrow> bool" where
  "is_space ch \<longleftrightarrow> ch \<in> set [CHR 0x20, CHR 0x09, CHR 0x0A, CHR 0x0B, CHR 0x0C, CHR 0x0D]"

text \<open>The separator class \<open>[\s,.!?;:"'-]\<close>.\<close>

definition is_separator :: "char \<Rightarrow> bool" where
  "is_separator ch \<longleftrightarrow>
     is_space ch \<or> ch \<in> set ('',.!?;:-'' @ [CHR 0x22, CHR 0x27])"

text \<open>
  \<open>text.split(/[\s,.!?;:"'-]+/)\<close>: the pieces between maximal runs of separators, with an
  empty piece before a leading run and after a trailing one. The flag says that the
  previous character was a separator; \<open>cur\<close> is the current piece, reversed.
\<close>

fun split_run :: "bool \<Rightarrow> string \<Rightarrow> string \<Rightarrow> string list" where
  "split_run inrun cur [] = [rev cur]"
| "split_run inrun cur (ch # cs) =
     (if is_separator ch
      then (if inrun then split_run True cur cs else rev cur # split_run True [] cs)
      else split_run False (ch # cur) cs)"

definition split_words :: "string \<Rightarrow> string list" where
  "split_words s = split_run False [] s"

definition commonStopWords :: "string list" where
  "commonStopWords =
     [''the'', ''and'', ''that'', ''have'', ''for'', ''not'', ''with'', ''you'', ''this'',
      ''but'', ''his'', ''from'', ''they'', ''we'', ''say'', ''her'', ''she'', ''will'',
      ''an'', ''one'', ''would'', ''there'', ''their'', ''what'', ''so'', ''up'', ''out'',
      ''if'', ''about'', ''who'', ''get'', ''which'', ''go'', ''me'', ''when'', ''make'',
      ''can'', ''like'', ''time'', ''no'', ''just'', ''him'', ''know'', ''take'',
      ''people'', ''into'', ''year'', ''your'', ''good'', ''some'', ''could'', ''them'',
      ''see'', ''other'', ''than'', ''then'', ''now'', ''look'', ''only'', ''come'',
      ''its'', ''over'', ''think'', ''also'', ''back'', ''after'', ''use'', ''two'',
      ''how'', ''our'', ''work'', ''first'', ''well'', ''way'', ''even'', ''new'',
      ''want'', ''because'', ''any'', ''these'', ''give'', ''day'', ''most'', ''us'',
      ''are'', ''is'', ''was'', ''be'', ''been'', ''being'']"

definition christianKeywords :: "string list" where
  "christianKeywords =
     [''god'', ''jesus'', ''lord'', ''christ'', ''holy'', ''spirit'', ''father'',
      ''faith'', ''love'', ''grace'', ''mercy'', ''peace'', ''joy'', ''hope'', ''life'',
      ''light'', ''truth'', ''heart'', ''soul'', ''pray'', ''bless'', ''glory'',
      ''saved'', ''world'', ''son'', ''heaven'', ''believe'', ''eternal'', ''word'',
      ''king'', ''cross'', ''blood'', ''lamb'', ''shepherd'']"

record candidate =
  word :: string
  score :: nat

text \<open>The callback of \<open>words.map\<close>.\<close>

definition candidate_of :: "string \<Rightarrow> candidate" where
  "candidate_of w =
     (let clean = toLowerCase w
      in if length clean < 3 then \<lparr>word = clean, score = 0\<rparr>
         else
           (let s1 = (if clean \<in> set christianKeywords then 20 else 0);
                s2 = (if clean \<notin> set commonStopWords then s1 + length clean else s1);
                s3 = (case w of
                        [] \<Rightarrow> s2
                      | ch # _ \<Rightarrow>
                          if ch = toUpperChar ch \<and> is_upper ch then s2 + 5 else s2)
            in \<lparr>word = clean, score = s3\<rparr>))"

text \<open>
  \<open>sort((a, b) => b.score - a.score)\<close>: a stable sort, descending by score.
\<close>

definition sort_by_score :: "candidate list \<Rightarrow> candidate list" where
  "sort_by_score cs = sort_key (\<lambda>c. - int (score c)) cs"

text \<open>
  The loop over \<open>sorted\<close> that fills the set \<open>topWords\<close>; the set is the list of its
  elements in insertion order.
\<close>

fun add_top :: "string list \<Rightarrow> candidate list \<Rightarrow> string list" where
  "add_top topWords [] = topWords"
| "add_top topWords (c # cs) =
     (if length topWords \<ge> 3 then topWords
      else add_top (if word c \<in> set topWords then topWords else topWords @ [word c]) cs)"

definition highlightedKeywords :: "PosterData \<Rightarrow> string list" where
  "highlightedKeywords d =
     (if mode d \<noteq> VERSE \<or> verseText d = [] then []
      else
        (let candidates = map candidate_of (split_words (verseText d));
             sorted = sort_by_score (filter (\<lambda>c. score c > 0) candidates)
         in add_top [] sorted))"

text \<open>
  The algorithm in the words of the specification: tokens without the empty ones, the
  score of a token, the tokens of positive score in descending stable order, the first
  three distinct lower-cased words.
\<close>

fun first_distinct :: "string list \<Rightarrow> string list \<Rightarrow> string list" where
  "first_distinct seen [] = []"
| "first_distinct seen (w # ws) =
     (if w \<in> set seen then first_distinct seen ws
      else w # first_distinct (w # seen) ws)"

definition spec_score :: "string \<Rightarrow> nat" where
  "spec_score w =
     (if length w < 3 then 0
      else (if toLowerCase w \<in> set christianKeywords then 20 else 0)
         + (if toLowerCase w \<notin> set commonStopWords then length w else 0)
         + (if w \<noteq> [] \<and> is_upper (hd w) then 5 else 0))"

definition spec_selectHighlights :: "string \<Rightarrow> string list" where
  "spec_selectHighlights verse =
     (let tokens = filter (\<lambda>w. w \<noteq> []) (split_words verse);
          kept = filter (\<lambda>w. spec_score w > 0) tokens;
          ordered = sort_key (\<lambda>w. - int (spec_score w)) kept
      in take 3 (first_distinct [] (map toLowerCase ordered)))"

section \<open>Text styles (PosterPreview.tsx)\<close>

text \<open>The properties of \<open>React.CSSProperties\<close> that the two styles set; \<open>None\<close> is an
  absent property.\<close>

record CSSProperties =
  css_fontFamily :: "string option"
  css_color :: "string option"
  css_backgroundImage :: "string option"
  css_backgroundClip :: "string option"
  css_WebkitBackgroundClip :: "string option"
  css_WebkitTextFillColor :: "string option"
  css_WebkitTextStroke :: "string option"
  css_textShadow :: "string option"
  css_opacity :: "real option"

definition startsWith :: "string \<Rightarrow> string \<Rightarrow> bool" where
  "startsWith s p \<longleftrightarrow> take (length p) s = p"

definition getTextEffectStyles :: "PosterData \<Rightarrow> TextEffect \<Rightarrow> string \<Rightarrow> CSSProperties" where
  "getTextEffectStyles d effect color =
     (let base0 = \<lparr>css_fontFamily = Some (fontFamily d), css_color = Some color,
                   css_backgroundImage = None, css_backgroundClip = None,
                   css_WebkitBackgroundClip = None, css_WebkitTextFillColor = None,
                   css_WebkitTextStroke = None, css_textShadow = None,
                   css_opacity = None\<rparr>;
          base = (if startsWith color ''linear-gradient''
                  then base0\<lparr>css_backgroundImage := Some color,
                             css_backgroundClip := Some ''text'',
                             css_WebkitBackgroundClip := Some ''text'',
                             css_WebkitTextFillColor := Some ''transparent'',
                             css_color := Some ''transparent''\<rparr>
                  else base0)
      in case effect of
           SHADOW_SOFT \<Rightarrow> base\<lparr>css_textShadow := Some ''0 4px 8px rgba(0,0,0,0.5)''\<rparr>
         | SHADOW_HARD \<Rightarrow> base\<lparr>css_textShadow := Some ''3px 3px 0px rgba(0,0,0,1)''\<rparr>
         | OUTLINE \<Rightarrow>
             base\<lparr>css_WebkitTextStroke :=
                    Some (''1px '' @ (if color = ''#000000'' then ''#ffffff'' else ''#000000'')),
                  css_textShadow := Some ''none''\<rparr>
         | NEON \<Rightarrow>
             base\<lparr>css_textShadow :=
                    Some (''0 0 5px #fff, 0 0 10px '' @ color @ '', 0 0 20px '' @ color)\<rparr>
         | RETRO \<Rightarrow> base\<lparr>css_textShadow := Some ''2px 2px 0 #d1d5db, 4px 4px 0 #9ca3af''\<rparr>
         | ELEGANT \<Rightarrow>
             base\<lparr>css_textShadow :=
                    Some ''0px 1px 0px rgba(255,255,255,0.4), 0px -1px 0px rgba(0,0,0,0.4)''\<rparr>
         | GLITCH \<Rightarrow>
             base\<lparr>css_textShadow := Some ''2px 0 rgba(255,0,0,0.5), -2px 0 rgba(0,0,255,0.5)''\<rparr>
         | NONE \<Rightarrow> base)"

definition textStyle :: "PosterData \<Rightarrow> CSSProperties" where
  "textStyle d = getTextEffectStyles d (textEffect d) (textColor d)"

definition accentStyle :: "PosterData \<Rightarrow> CSSProperties" where
  "accentStyle d =
     \<lparr>css_fontFamily = Some (fontFamily d),
      css_color = Some (if startsWith (textColor d) ''linear-gradient''
                        then ''#ffffff'' else textColor d),
      css_backgroundImage = None, css_backgroundClip = None,
      css_WebkitBackgroundClip = None, css_WebkitTextFillColor = None,
      css_WebkitTextStroke = None,
      css_textShadow = Some ''0px 1px 2px rgba(0,0,0,0.5)'',
      css_opacity = Some 0.9\<rparr>"

section \<open>External services (geminiService.ts, bibleService.ts)\<close>

text \<open>
  A thrown value. A function that can throw returns \<open>js_error + 'a\<close>; an asynchronous
  function is modelled by the value its promise settles with, and a rejected promise is
  a thrown value.
\<close>

datatype js_error = Error string

text \<open>\<open>String.prototype.trim\<close>.\<close>

definition trim :: "string \<Rightarrow> string" where
  "trim s = rev (dropWhile is_space (rev (dropWhile is_space s)))"

text \<open>
  The text generation service: the environment variable \<open>API_KEY\<close> and the behaviour of
  \<open>ai.models.generateContent\<close>, which is given the model name and the prompt and either
  throws or answers with a response whose \<open>text\<close> may be undefined.
\<close>

record gen_request =
  req_model :: string
  req_contents :: string

record ai_env =
  API_KEY :: "string option"
  generateContent :: "gen_request \<Rightarrow> js_error + string option"

definition getAiInstance :: "ai_env \<Rightarrow> js_error + (gen_request \<Rightarrow> js_error + string option)" where
  "getAiInstance env =
     (case API_KEY env of
        None \<Rightarrow> Inl (Error ''API Key is missing. Please set process.env.API_KEY.'')
      | Some k \<Rightarrow>
          if k = [] then Inl (Error ''API Key is missing. Please set process.env.API_KEY.'')
          else Inr (generateContent env))"

definition translate_prompt :: "string \<Rightarrow> string \<Rightarrow> string" where
  "translate_prompt text_in targetLanguage =
     ''Translate the following Christian text accurately into '' @ targetLanguage @
     ''. Keep the spiritual tone. Return ONLY the translated text without quotes or explanations.'' @
     [CHR 0x0A, CHR 0x0A] @ ''Text: '' @ [CHR 0x22] @ text_in @ [CHR 0x22]"

definition translate_request :: "string \<Rightarrow> string \<Rightarrow> gen_request" where
  "translate_request text_in targetLanguage =
     \<lparr>req_model = ''gemini-3-flash-preview'',
      req_contents = translate_prompt text_in targetLanguage\<rparr>"

text \<open>
  The \<open>try\<close> block of \<open>translateText\<close>: the requests sent to the service, and the value
  returned or thrown.
\<close>

definition translateText_try ::
  "ai_env \<Rightarrow> string \<Rightarrow> string \<Rightarrow> gen_request list \<times> (js_error + string)" where
  "translateText_try env text_in targetLanguage =
     (case getAiInstance env of
        Inl err \<Rightarrow> ([], Inl err)
      | Inr ai \<Rightarrow>
          (let request = translate_request text_in targetLanguage
           in case ai request of
                Inl err \<Rightarrow> ([request], Inl err)
              | Inr response_text \<Rightarrow>
                  ([request],
                   Inr (case response_text of
                          None \<Rightarrow> text_in
                        | Some t \<Rightarrow> if trim t = [] then text_in else trim t))))"

definition translateText ::
  "ai_env \<Rightarrow> string \<Rightarrow> string \<Rightarrow> gen_request list \<times> (js_error + string)" where
  "translateText env text_in targetLanguage =
     (if targetLanguage = ''English'' then ([], Inr text_in)
      else case translateText_try env text_in targetLanguage of
             (sent, Inl err) \<Rightarrow> (sent, Inr text_in)
           | (sent, Inr r) \<Rightarrow> (sent, Inr r))"

text \<open>
  The verse service. \<open>fetch\<close> either rejects or yields a response with its \<open>ok\<close> flag;
  \<open>response.json()\<close> either rejects or yields a value, which is \<open>null\<close> or an object
  whose \<open>reference\<close> and \<open>text\<close> are strings or absent.
\<close>

datatype json_body =
  JsonRejected
  | JsonNull
  | JsonObject "string option" "string option"

datatype fetch_outcome =
  FetchRejected
  | Response bool json_body

record VerseResult =
  vr_reference :: "string option"
  vr_text :: string
  vr_translation_id :: string

definition hex_digit :: "nat \<Rightarrow> char" where
  "hex_digit n = (if n < 10 then char_of (48 + n) else char_of (55 + n))"

definition is_digit :: "char \<Rightarrow> bool" where
  "is_digit ch \<longleftrightarrow> 48 \<le> (of_char ch :: nat) \<and> (of_char ch :: nat) \<le> 57"

text \<open>\<open>encodeURIComponent\<close> on the bytes of a well-formed string.\<close>

definition encode_char :: "char \<Rightarrow> string" where
  "encode_char ch =
     (if is_upper ch \<or> is_lower ch \<or> is_digit ch \<or> ch \<in> set (''-_.!~*()'' @ [CHR 0x27])
      then [ch]
      else [CHR ''%'', hex_digit ((of_char ch :: nat) div 16),
            hex_digit ((of_char ch :: nat) mod 16)])"

definition encodeURIComponent :: "string \<Rightarrow> string" where
  "encodeURIComponent s = concat (map encode_char s)"

definition verse_url :: "string \<Rightarrow> string \<Rightarrow> string" where
  "verse_url reference v =
     ''https://bible-api.com/'' @ encodeURIComponent reference @ ''?translation='' @ v"

text \<open>The \<open>try\<close> block of \<open>tryFetch\<close>.\<close>

definition tryFetch_try ::
  "(string \<Rightarrow> fetch_outcome) \<Rightarrow> string \<Rightarrow> string \<Rightarrow> js_error + VerseResult option" where
  "tryFetch_try net reference v =
     (case net (verse_url reference v) of
        FetchRejected \<Rightarrow> Inl (Error ''fetch'')
      | Response ok body \<Rightarrow>
          if \<not> ok then Inr None
          else
            (case body of
               JsonRejected \<Rightarrow> Inl (Error ''json'')
             | JsonNull \<Rightarrow> Inl (Error ''TypeError'')
             | JsonObject r None \<Rightarrow> Inl (Error ''TypeError'')
             | JsonObject r (Some t) \<Rightarrow>
                 Inr (Some \<lparr>vr_reference = r, vr_text = trim t,
                            vr_translation_id = toUpperCase v\<rparr>)))"

definition tryFetch ::
  "(string \<Rightarrow> fetch_outcome) \<Rightarrow> string \<Rightarrow> string \<Rightarrow> js_error + VerseResult option" where
  "tryFetch net reference v =
     (case tryFetch_try net reference v of
        Inl err \<Rightarrow> Inr None
      | Inr r \<Rightarrow> Inr r)"

text \<open>
  \<open>fetchVerse\<close>: the addresses fetched, in order, and the value returned or thrown. The
  parameter \<open>version\<close> is optional and defaults to \<open>'web'\<close>; an \<open>await\<close> passes a thrown
  value on.
\<close>

definition fetchVerse ::
  "(string \<Rightarrow> fetch_outcome) \<Rightarrow> string \<Rightarrow> string option
     \<Rightarrow> string list \<times> (js_error + VerseResult option)" where
  "fetchVerse net reference version_arg =
     (let version = (case version_arg of None \<Rightarrow> ''web'' | Some v \<Rightarrow> v)
      in case tryFetch net reference version of
           Inl err \<Rightarrow> ([verse_url reference version], Inl err)
         | Inr result \<Rightarrow>
             if result = None \<and> version \<noteq> ''web''
             then (case tryFetch net reference ''web'' of
                     Inl err \<Rightarrow>
                       ([verse_url reference version, verse_url reference ''web''], Inl err)
                   | Inr result2 \<Rightarrow>
                       ([verse_url reference version, verse_url reference ''web''],
                        Inr result2))
             else ([verse_url reference version], Inr result))"

text \<open>
  A fetch that fails or errors: the request is rejected, the response is not \<open>ok\<close>, its
  body is not JSON, or the JSON value has no string \<open>text\<close>.
\<close>

definition fetch_fails :: "(string \<Rightarrow> fetch_outcome) \<Rightarrow> string \<Rightarrow> string \<Rightarrow> bool" where
  "fetch_fails net reference v =
     (case net (verse_url reference v) of
        FetchRejected \<Rightarrow> True
      | Response ok body \<Rightarrow>
          (if ok then (case body of JsonObject r (Some t) \<Rightarrow> False | _ \<Rightarrow> True)
           else True))"

text \<open>
  A text generation service that fails or answers with nothing: no API key, a thrown
  error, or a response whose text is undefined or blank.
\<close>

definition provider_gives_nothing :: "ai_env \<Rightarrow> string \<Rightarrow> string \<Rightarrow> bool" where
  "provider_gives_nothing env text_in targetLanguage =
     (if API_KEY env = None \<or> API_KEY env = Some [] then True
      else (case generateContent env (translate_request text_in targetLanguage) of
              Inl err \<Rightarrow> True
            | Inr None \<Rightarrow> True
            | Inr (Some t) \<Rightarrow> trim t = []))"

text \<open>A verse service that knows John 3:16 in the \<open>web\<close> translation only.\<close>

definition sample_net :: "string \<Rightarrow> fetch_outcome" where
  "sample_net url =
     (if url = ''https://bible-api.com/John%203%3A16?translation=web''
      then Response True (JsonObject (Some ''John 3:16'') (Some '' For God so loved the world ''))
      else Response False JsonNull)"

section \<open>Geometry bounds\<close>

lemma clamp_range: "lo \<le> hi \<Longrightarrow> lo \<le> clamp lo hi v \<and> clamp lo hi v \<le> hi"
  by (simp add: clamp_def)


lemma updateData_single [simp]: "updateData d [u] = set_field u d"
  by (simp add: updateData_def)



lemma handleMouseMove_aspect:
  "posterAspect (snd (handleMouseMove p dims c d e)) = posterAspect d"
proof (cases "activeDragId c")
  case None
  then show ?thesis by (simp add: handleMouseMove_def)
next
  case (Some ident)
  then show ?thesis
    by (cases ident; cases "dragAction c")
       (simp_all add: handleMouseMove_def applyDelta_def Let_def)
qed










section \<open>Interaction sessions\<close>

lemma handleMouseMove_settled:
  "dragAction c \<noteq> Drag \<Longrightarrow> fst (handleMouseMove p dims c d e) = c"
  by (simp add: handleMouseMove_def Let_def split: option.splits)

lemma run_moves_settled:
  "dragAction c \<noteq> Drag \<Longrightarrow> fst (run p dims (c, d) (map MouseMove evs)) = c"
proof (induction evs arbitrary: d)
  case Nil
  then show ?case by (simp add: run_def)
next
  case (Cons e evs)
  obtain c' d' where s: "handleMouseMove p dims c d e = (c', d')"
    by (cases "handleMouseMove p dims c d e")
  with Cons.prems have "c' = c"
    using handleMouseMove_settled [of c p dims d e] by simp
  with s Cons show ?case by (simp add: run_def)
qed

lemma run_append: "run p dims s (xs @ ys) = run p dims (run p dims s xs) ys"
  by (simp add: run_def)

lemma run_Cons: "run p dims s (ev # evs) = run p dims (step p dims s ev) evs"
  by (simp add: run_def)

lemma run_Nil: "run p dims s [] = s"
  by (simp add: run_def)

lemma run_aspect: "posterAspect (snd (run p dims s evs)) = posterAspect (snd s)"
proof (induction evs arbitrary: s)
  case Nil
  then show ?case by (simp add: run_def)
next
  case (Cons ev evs)
  have "posterAspect (snd (step p dims s ev)) = posterAspect (snd s)"
    by (cases s; cases ev) (simp_all add: handleMouseMove_aspect)
  with Cons show ?case by (simp add: run_Cons)
qed

lemma baseWidth_aspect: "posterAspect d' = posterAspect d \<Longrightarrow> baseWidth dims d' = baseWidth dims d"
  by (simp add: baseWidth_def dimensions_of_def)

lemma baseHeight_aspect: "posterAspect d' = posterAspect d \<Longrightarrow> baseHeight dims d' = baseHeight dims d"
  by (simp add: baseHeight_def dimensions_of_def)

lemma run_moves_last:
  assumes "dragAction c \<noteq> Drag"
  shows "run p dims (c, d) (map MouseMove evs @ [MouseMove e]) =
           handleMouseMove p dims c (snd (run p dims (c, d) (map MouseMove evs))) e"
proof -
  obtain c' d' where s: "run p dims (c, d) (map MouseMove evs) = (c', d')"
    by (cases "run p dims (c, d) (map MouseMove evs)")
  with assms have "c' = c" using run_moves_settled [of c p dims d evs] by simp
  with s show ?thesis by (simp add: run_append run_Cons run_Nil)
qed

lemma move_text_drag:
  assumes "onUpdateData p"
  shows "handleMouseMove p dims (c\<lparr>activeDragId := Some Text, dragAction := Drag\<rparr>) d e =
     (c\<lparr>activeDragId := Some Text, dragAction := Drag,
        dragStart := \<lparr>xc = clientX e, yc = clientY e\<rparr>\<rparr>,
      d\<lparr>textPosition :=
          \<lparr>xc = clamp 0 100 (xc (textPosition d) +
                   (clientX e - xc (dragStart c)) / scale p / baseWidth dims d * 100),
           yc = clamp 0 100 (yc (textPosition d) +
                   (clientY e - yc (dragStart c)) / scale p / baseHeight dims d * 100)\<rparr>\<rparr>)"
  using assms by (simp add: handleMouseMove_def applyDelta_def Let_def)

lemma move_rebases:
  assumes "onUpdateData p"
  shows "dragStart (fst (handleMouseMove p dims (c\<lparr>activeDragId := Some ident, dragAction := Drag\<rparr>) d e))
           = \<lparr>xc = clientX e, yc = clientY e\<rparr>"
  using assms by (simp add: handleMouseMove_def Let_def)

lemma resize_session_text:
  assumes "onUpdateData p"
  shows "textWidth (snd (run p dims (c\<lparr>activeDragId := Some Text, dragAction := Resize\<rparr>, d)
             (map MouseMove evs @ [MouseMove e]))) =
         clamp 20 100 (initialWidth c + (clientX e - xc (dragStart c)) / scale p / baseWidth dims d * 100)"
proof -
  let ?c = "c\<lparr>activeDragId := Some Text, dragAction := Resize\<rparr>"
  let ?d = "snd (run p dims (?c, d) (map MouseMove evs))"
  have "baseWidth dims ?d = baseWidth dims d"
    by (rule baseWidth_aspect) (simp add: run_aspect)
  then show ?thesis
    using assms by (simp add: run_moves_last handleMouseMove_def applyDelta_def Let_def)
qed

lemma resize_session_logo:
  assumes "onUpdateData p"
  shows "logoWidth (snd (run p dims (c\<lparr>activeDragId := Some Logo, dragAction := Resize\<rparr>, d)
             (map MouseMove evs @ [MouseMove e]))) =
         clamp 5 60 (initialWidth c + (clientX e - xc (dragStart c)) / scale p / baseWidth dims d * 100)"
proof -
  let ?c = "c\<lparr>activeDragId := Some Logo, dragAction := Resize\<rparr>"
  let ?d = "snd (run p dims (?c, d) (map MouseMove evs))"
  have "baseWidth dims ?d = baseWidth dims d"
    by (rule baseWidth_aspect) (simp add: run_aspect)
  then show ?thesis
    using assms by (simp add: run_moves_last handleMouseMove_def applyDelta_def Let_def)
qed

lemma resize_session_photo:
  assumes "onUpdateData p"
  shows "photoWidth (snd (run p dims (c\<lparr>activeDragId := Some Photo, dragAction := Resize\<rparr>, d)
             (map MouseMove evs @ [MouseMove e]))) =
         clamp 10 90 (initialWidth c + (clientX e - xc (dragStart c)) / scale p / baseWidth dims d * 100)"
proof -
  let ?c = "c\<lparr>activeDragId := Some Photo, dragAction := Resize\<rparr>"
  let ?d = "snd (run p dims (?c, d) (map MouseMove evs))"
  have "baseWidth dims ?d = baseWidth dims d"
    by (rule baseWidth_aspect) (simp add: run_aspect)
  then show ?thesis
    using assms by (simp add: run_moves_last handleMouseMove_def applyDelta_def Let_def)
qed

lemma mouseDown_text_drag:
  "handleMouseDown d c e Text Drag =
     c\<lparr>activeDragId := Some Text, dragAction := Drag, dragStart := \<lparr>xc = clientX e, yc = clientY e\<rparr>\<rparr>"
  by (simp add: handleMouseDown_def)

lemma mouseDown_text_resize:
  "handleMouseDown d c e Text Resize =
     c\<lparr>dragStart := \<lparr>xc = clientX e, yc = clientY e\<rparr>, initialWidth := textWidth d,
       activeDragId := Some Text, dragAction := Resize\<rparr>"
  by (simp add: handleMouseDown_def)

lemma mouseDown_text_scale:
  "handleMouseDown d c e Text Scale =
     c\<lparr>dragStart := \<lparr>xc = clientX e, yc = clientY e\<rparr>, initialScale := js_or (textScale d) 1,
       activeDragId := Some Text, dragAction := Scale\<rparr>"
  by (simp add: handleMouseDown_def)

lemma move_text_step:
  assumes "onUpdateData p" "activeDragId c = Some Text" "dragAction c = Drag"
  shows "handleMouseMove p dims c d e =
     (c\<lparr>dragStart := \<lparr>xc = clientX e, yc = clientY e\<rparr>\<rparr>,
      d\<lparr>textPosition :=
          \<lparr>xc = clamp 0 100 (xc (textPosition d) +
                   (clientX e - xc (dragStart c)) / scale p / baseWidth dims d * 100),
           yc = clamp 0 100 (yc (textPosition d) +
                   (clientY e - yc (dragStart c)) / scale p / baseHeight dims d * 100)\<rparr>\<rparr>)"
  using assms by (simp add: handleMouseMove_def applyDelta_def Let_def)

lemma resize_session_concrete:
  assumes "onUpdateData p" "scale p = 1" "baseWidth dims d = 400"
    and "20 \<le> textWidth d" "textWidth d + 5 \<le> 100"
  shows "textWidth (snd (run p dims (c, d)
            (MouseDown Text Resize \<lparr>clientX = 0, clientY = 0\<rparr> #
             map MouseMove evs @ [MouseMove \<lparr>clientX = 20, clientY = 0\<rparr>]))) = textWidth d + 5"
  using assms resize_session_text [of p dims "c\<lparr>dragStart := \<lparr>xc = 0, yc = 0\<rparr>, initialWidth := textWidth d\<rparr>" d evs "\<lparr>clientX = 20, clientY = 0\<rparr>"]
  by (simp add: run_Cons mouseDown_text_resize clamp_def)

lemma move_session_concrete:
  assumes "onUpdateData p" "scale p = 1" "baseWidth dims d = 400"
    and "0 \<le> xc (textPosition d)" "xc (textPosition d) + 2.5 \<le> 100"
  shows "xc (textPosition (snd (run p dims (c, d)
            [MouseDown Text Drag \<lparr>clientX = 0, clientY = 0\<rparr>,
             MouseMove \<lparr>clientX = 10, clientY = 0\<rparr>]))) = xc (textPosition d) + 2.5
       \<and> xc (textPosition (snd (run p dims (c, d)
            [MouseDown Text Drag \<lparr>clientX = 0, clientY = 0\<rparr>,
             MouseMove \<lparr>clientX = 10, clientY = 0\<rparr>,
             MouseMove \<lparr>clientX = 10, clientY = 10\<rparr>]))) = xc (textPosition d) + 2.5"
proof -
  define e1 :: mouse_event where "e1 = \<lparr>clientX = 10, clientY = 0\<rparr>"
  define e2 :: mouse_event where "e2 = \<lparr>clientX = 10, clientY = 10\<rparr>"
  define c0 where "c0 = handleMouseDown d c \<lparr>clientX = 0, clientY = 0\<rparr> Text Drag"
  define s1 where "s1 = handleMouseMove p dims c0 d e1"
  define s2 where "s2 = handleMouseMove p dims (fst s1) (snd s1) e2"
  have c0: "activeDragId c0 = Some Text" "dragAction c0 = Drag"
    by (simp_all add: c0_def mouseDown_text_drag)
  have o0: "xc (dragStart c0) = 0"
    by (simp add: c0_def mouseDown_text_drag)
  have m1: "s1 = (c0\<lparr>dragStart := \<lparr>xc = clientX e1, yc = clientY e1\<rparr>\<rparr>,
      d\<lparr>textPosition :=
          \<lparr>xc = clamp 0 100 (xc (textPosition d) +
                   (clientX e1 - xc (dragStart c0)) / scale p / baseWidth dims d * 100),
           yc = clamp 0 100 (yc (textPosition d) +
                   (clientY e1 - yc (dragStart c0)) / scale p / baseHeight dims d * 100)\<rparr>\<rparr>)"
    unfolding s1_def by (rule move_text_step [OF assms(1) c0])
  have c1: "activeDragId (fst s1) = Some Text" "dragAction (fst s1) = Drag"
    by (simp_all add: m1 c0)
  have o1: "xc (dragStart (fst s1)) = 10"
    by (simp add: m1 e1_def)
  have x1: "xc (textPosition (snd s1)) = xc (textPosition d) + 2.5"
    using assms(2-5) by (simp add: m1 o0 e1_def clamp_def)
  have "posterAspect (snd s1) = posterAspect d"
    unfolding s1_def by (rule handleMouseMove_aspect)
  then have w1: "baseWidth dims (snd s1) = 400"
    using assms(3) baseWidth_aspect [of "snd s1" d dims] by simp
  have m2: "s2 = ((fst s1)\<lparr>dragStart := \<lparr>xc = clientX e2, yc = clientY e2\<rparr>\<rparr>,
      (snd s1)\<lparr>textPosition :=
          \<lparr>xc = clamp 0 100 (xc (textPosition (snd s1)) +
                   (clientX e2 - xc (dragStart (fst s1))) / scale p / baseWidth dims (snd s1) * 100),
           yc = clamp 0 100 (yc (textPosition (snd s1)) +
                   (clientY e2 - yc (dragStart (fst s1))) / scale p / baseHeight dims (snd s1) * 100)\<rparr>\<rparr>)"
    unfolding s2_def by (rule move_text_step [OF assms(1) c1])
  have x2: "xc (textPosition (snd s2)) = xc (textPosition d) + 2.5"
    using assms(2,4,5) by (simp add: m2 o1 x1 w1 e2_def clamp_def)
  have run2: "run p dims (c, d) [MouseDown Text Drag \<lparr>clientX = 0, clientY = 0\<rparr>, MouseMove e1] = s1"
    by (simp add: run_Cons run_Nil s1_def c0_def)
  have "run p dims (c, d)
          [MouseDown Text Drag \<lparr>clientX = 0, clientY = 0\<rparr>, MouseMove e1, MouseMove e2]
        = step p dims s1 (MouseMove e2)"
    by (simp add: run_Cons run_Nil s1_def c0_def)
  also have "\<dots> = s2"
    unfolding s2_def by (cases s1) simp
  finally have run3: "run p dims (c, d)
          [MouseDown Text Drag \<lparr>clientX = 0, clientY = 0\<rparr>, MouseMove e1, MouseMove e2] = s2" .
  show ?thesis
    using run2 run3 x1 x2 by (simp add: e1_def e2_def)
qed

lemma scale_text_step:
  assumes "onUpdateData p" "activeDragId c = Some Text" "dragAction c = Scale"
  shows "handleMouseMove p dims c d e =
     (c, d\<lparr>textScale :=
            clamp 0.5 3.0 (initialScale c +
              ((clientX e - xc (dragStart c)) / scale p +
               (clientY e - yc (dragStart c)) / scale p) * 0.005)\<rparr>)"
  using assms by (simp add: handleMouseMove_def applyDelta_def Let_def)

lemma scale_session_text:
  assumes "onUpdateData p"
  shows "textScale (snd (run p dims (c, d)
            (MouseDown Text Scale e0 # map MouseMove evs @ [MouseMove e]))) =
         clamp 0.5 3.0 (js_or (textScale d) 1 +
              ((clientX e - clientX e0) / scale p + (clientY e - clientY e0) / scale p) * 0.005)"
proof -
  define c0 where "c0 = handleMouseDown d c e0 Text Scale"
  have c0: "activeDragId c0 = Some Text" "dragAction c0 = Scale"
      "dragStart c0 = \<lparr>xc = clientX e0, yc = clientY e0\<rparr>"
      "initialScale c0 = js_or (textScale d) 1"
    by (simp_all add: c0_def mouseDown_text_scale)
  have nd: "dragAction c0 \<noteq> Drag" by (simp add: c0)
  have "run p dims (c, d) (MouseDown Text Scale e0 # map MouseMove evs @ [MouseMove e]) =
          handleMouseMove p dims c0 (snd (run p dims (c0, d) (map MouseMove evs))) e"
    by (simp add: run_Cons c0_def [symmetric] run_moves_last [OF nd])
  then show ?thesis
    by (simp add: scale_text_step [OF assms c0(1,2)] c0)
qed

lemma scale_eq_resize_patch:
  assumes "ident \<noteq> Text"
  shows "applyDelta dims (c\<lparr>dragAction := Scale\<rparr>) d ident deltaX deltaY =
         applyDelta dims (c\<lparr>dragAction := Resize\<rparr>) d ident deltaX deltaY"
  using assms by (cases ident) (simp_all add: applyDelta_def)

lemma scale_eq_resize_down:
  assumes "ident \<noteq> Text"
  shows "handleMouseDown d c e ident Scale = (handleMouseDown d c e ident Resize)\<lparr>dragAction := Scale\<rparr>"
  using assms by (cases ident) (simp_all add: handleMouseDown_def)

lemma scale_eq_resize_move:
  assumes "ident \<noteq> Text" "activeDragId c = Some ident"
  shows "handleMouseMove p dims (c\<lparr>dragAction := Scale\<rparr>) d e =
         (c\<lparr>dragAction := Scale\<rparr>, snd (handleMouseMove p dims (c\<lparr>dragAction := Resize\<rparr>) d e))"
    and "fst (handleMouseMove p dims (c\<lparr>dragAction := Resize\<rparr>) d e) = c\<lparr>dragAction := Resize\<rparr>"
  using assms by (cases ident; simp add: handleMouseMove_def applyDelta_def Let_def)+

lemma scale_eq_resize_moves:
  assumes "ident \<noteq> Text" "activeDragId c = Some ident"
  shows "run p dims (c\<lparr>dragAction := Scale\<rparr>, d) (map MouseMove evs) =
         (c\<lparr>dragAction := Scale\<rparr>,
          snd (run p dims (c\<lparr>dragAction := Resize\<rparr>, d) (map MouseMove evs)))"
proof (induction evs arbitrary: d)
  case Nil
  show ?case by (simp add: run_Nil)
next
  case (Cons e evs)
  define d1 where "d1 = snd (handleMouseMove p dims (c\<lparr>dragAction := Resize\<rparr>) d e)"
  have r: "handleMouseMove p dims (c\<lparr>dragAction := Resize\<rparr>) d e = (c\<lparr>dragAction := Resize\<rparr>, d1)"
    using scale_eq_resize_move(2) [OF assms, of p dims d e]
    unfolding d1_def
    by (cases "handleMouseMove p dims (c\<lparr>dragAction := Resize\<rparr>) d e") simp
  have s: "handleMouseMove p dims (c\<lparr>dragAction := Scale\<rparr>) d e = (c\<lparr>dragAction := Scale\<rparr>, d1)"
    unfolding d1_def by (rule scale_eq_resize_move(1) [OF assms])
  have "run p dims (c\<lparr>dragAction := Scale\<rparr>, d) (map MouseMove (e # evs)) =
        run p dims (c\<lparr>dragAction := Scale\<rparr>, d1) (map MouseMove evs)"
    by (simp only: list.map run_Cons step.simps s)
  moreover have "run p dims (c\<lparr>dragAction := Resize\<rparr>, d) (map MouseMove (e # evs)) =
        run p dims (c\<lparr>dragAction := Resize\<rparr>, d1) (map MouseMove evs)"
    by (simp only: list.map run_Cons step.simps r)
  ultimately show ?case
    by (simp only: Cons.IH)
qed

lemma scale_eq_resize_session:
  assumes "ident \<noteq> Text"
  shows "snd (run p dims (c, d) (MouseDown ident Scale e0 # map MouseMove evs)) =
         snd (run p dims (c, d) (MouseDown ident Resize e0 # map MouseMove evs))"
proof -
  define c0 where "c0 = handleMouseDown d c e0 ident Resize"
  have a: "activeDragId c0 = Some ident"
    by (cases ident) (simp_all add: c0_def handleMouseDown_def)
  have r: "c0\<lparr>dragAction := Resize\<rparr> = c0"
    by (cases ident) (simp_all add: c0_def handleMouseDown_def)
  have "run p dims (c, d) (MouseDown ident Scale e0 # map MouseMove evs) =
        run p dims (c0\<lparr>dragAction := Scale\<rparr>, d) (map MouseMove evs)"
    by (simp add: run_Cons scale_eq_resize_down [OF assms] c0_def)
  moreover have "run p dims (c, d) (MouseDown ident Resize e0 # map MouseMove evs) =
        run p dims (c0\<lparr>dragAction := Resize\<rparr>, d) (map MouseMove evs)"
    by (simp add: run_Cons r) (simp add: c0_def)
  ultimately show ?thesis
    by (simp add: scale_eq_resize_moves [OF assms a])
qed

lemma nontext_width_only:
  assumes "onUpdateData p" "act \<noteq> Drag"
  shows "snd (handleMouseMove p dims (c\<lparr>activeDragId := Some Logo, dragAction := act\<rparr>) d e) =
           d\<lparr>logoWidth := clamp 5 60 (initialWidth c +
               (clientX e - xc (dragStart c)) / scale p / baseWidth dims d * 100)\<rparr>"
    and "snd (handleMouseMove p dims (c\<lparr>activeDragId := Some Photo, dragAction := act\<rparr>) d e) =
           d\<lparr>photoWidth := clamp 10 90 (initialWidth c +
               (clientX e - xc (dragStart c)) / scale p / baseWidth dims d * 100)\<rparr>"
  using assms by (cases act; simp add: handleMouseMove_def applyDelta_def Let_def)+

lemma nontext_down_scale:
  "ident \<noteq> Text \<Longrightarrow> initialScale (handleMouseDown d c e ident act) = initialScale c"
  by (cases ident; cases act) (simp_all add: handleMouseDown_def)

text \<open>
  The Text path of a move, and the resize path of every layer. With the callback
  supplied, a non-zero display scale and non-zero canvas dimensions: a move event of a
  Text drag sets the position to the clamped sum of the current position and the
  percentage delta since the previous event, and for every layer it re-bases the
  pointer reference to the event's pointer position; a resize session sets the width to
  the clamp of the width captured at the start plus the percentage of the total x
  displacement since the origin, whatever events came in between. With display scale 1
  and canvas width 400, the Text drag (0,0), (10,0), (10,10) raises position.x by 2.5 at
  the first move and by 0 at the second, when the start position leaves room for it;
  the Text resize from origin (0,0) to (20,0) gives the start width plus 5, when that is
  within the width bound.
\<close>

lemma text_move_and_resize_sessions:
  assumes "onUpdateData p" and "scale p \<noteq> 0" and "canvas_ok dims d"
  shows "handleMouseMove p dims (c\<lparr>activeDragId := Some Text, dragAction := Drag\<rparr>) d e =
      (c\<lparr>activeDragId := Some Text, dragAction := Drag,
         dragStart := \<lparr>xc = clientX e, yc = clientY e\<rparr>\<rparr>,
       d\<lparr>textPosition :=
           \<lparr>xc = clamp 0 100 (xc (textPosition d) +
                    (clientX e - xc (dragStart c)) / scale p / baseWidth dims d * 100),
            yc = clamp 0 100 (yc (textPosition d) +
                    (clientY e - yc (dragStart c)) / scale p / baseHeight dims d * 100)\<rparr>\<rparr>)
    \<and> dragStart (fst (handleMouseMove p dims
          (c\<lparr>activeDragId := Some ident, dragAction := Drag\<rparr>) d e)) =
        \<lparr>xc = clientX e, yc = clientY e\<rparr>
    \<and> textWidth (snd (run p dims (c\<lparr>activeDragId := Some Text, dragAction := Resize\<rparr>, d)
          (map MouseMove evs @ [MouseMove e]))) =
        clamp 20 100 (initialWidth c +
          (clientX e - xc (dragStart c)) / scale p / baseWidth dims d * 100)
    \<and> logoWidth (snd (run p dims (c\<lparr>activeDragId := Some Logo, dragAction := Resize\<rparr>, d)
          (map MouseMove evs @ [MouseMove e]))) =
        clamp 5 60 (initialWidth c +
          (clientX e - xc (dragStart c)) / scale p / baseWidth dims d * 100)
    \<and> photoWidth (snd (run p dims (c\<lparr>activeDragId := Some Photo, dragAction := Resize\<rparr>, d)
          (map MouseMove evs @ [MouseMove e]))) =
        clamp 10 90 (initialWidth c +
          (clientX e - xc (dragStart c)) / scale p / baseWidth dims d * 100)
    \<and> (scale p = 1 \<and> baseWidth dims d = 400 \<and>
         0 \<le> xc (textPosition d) \<and> xc (textPosition d) + 2.5 \<le> 100 \<longrightarrow>
         xc (textPosition (snd (run p dims (c, d)
            [MouseDown Text Drag \<lparr>clientX = 0, clientY = 0\<rparr>,
             MouseMove \<lparr>clientX = 10, clientY = 0\<rparr>]))) = xc (textPosition d) + 2.5
         \<and> xc (textPosition (snd (run p dims (c, d)
            [MouseDown Text Drag \<lparr>clientX = 0, clientY = 0\<rparr>,
             MouseMove \<lparr>clientX = 10, clientY = 0\<rparr>,
             MouseMove \<lparr>clientX = 10, clientY = 10\<rparr>]))) = xc (textPosition d) + 2.5)
    \<and> (scale p = 1 \<and> baseWidth dims d = 400 \<and>
         20 \<le> textWidth d \<and> textWidth d + 5 \<le> 100 \<longrightarrow>
         textWidth (snd (run p dims (c, d)
            (MouseDown Text Resize \<lparr>clientX = 0, clientY = 0\<rparr> #
             map MouseMove evs @ [MouseMove \<lparr>clientX = 20, clientY = 0\<rparr>]))) = textWidth d + 5)"
proof -
  have mv: "scale p = 1 \<and> baseWidth dims d = 400 \<and>
         0 \<le> xc (textPosition d) \<and> xc (textPosition d) + 2.5 \<le> 100 \<longrightarrow>
         xc (textPosition (snd (run p dims (c, d)
            [MouseDown Text Drag \<lparr>clientX = 0, clientY = 0\<rparr>,
             MouseMove \<lparr>clientX = 10, clientY = 0\<rparr>]))) = xc (textPosition d) + 2.5
         \<and> xc (textPosition (snd (run p dims (c, d)
            [MouseDown Text Drag \<lparr>clientX = 0, clientY = 0\<rparr>,
             MouseMove \<lparr>clientX = 10, clientY = 0\<rparr>,
             MouseMove \<lparr>clientX = 10, clientY = 10\<rparr>]))) = xc (textPosition d) + 2.5"
    using move_session_concrete [OF assms(1), of dims d c] by blast
  have rs: "scale p = 1 \<and> baseWidth dims d = 400 \<and>
         20 \<le> textWidth d \<and> textWidth d + 5 \<le> 100 \<longrightarrow>
         textWidth (snd (run p dims (c, d)
            (MouseDown Text Resize \<lparr>clientX = 0, clientY = 0\<rparr> #
             map MouseMove evs @ [MouseMove \<lparr>clientX = 20, clientY = 0\<rparr>]))) = textWidth d + 5"
    using resize_session_concrete [OF assms(1), of dims d c evs] by blast
  show ?thesis
    using mv rs
    by (simp only: move_text_drag [OF assms(1)] move_rebases [OF assms(1)]
        resize_session_text [OF assms(1)] resize_session_logo [OF assms(1)]
        resize_session_photo [OF assms(1)] simp_thms)
qed

lemma text_move_and_resize_sessions_example:
  "onUpdateData appProps \<and> scale appProps \<noteq> 0 \<and>
   canvas_ok (\<lambda>_. None) (initialData None []) \<and>
   xc (textPosition (snd (run appProps (\<lambda>_. None) (initialCtrl, initialData None [])
      [MouseDown Text Drag \<lparr>clientX = 0, clientY = 0\<rparr>,
       MouseMove \<lparr>clientX = 10, clientY = 0\<rparr>]))) = 52.5 \<and>
   xc (textPosition (snd (run appProps (\<lambda>_. None) (initialCtrl, initialData None [])
      [MouseDown Text Drag \<lparr>clientX = 0, clientY = 0\<rparr>,
       MouseMove \<lparr>clientX = 10, clientY = 0\<rparr>,
       MouseMove \<lparr>clientX = 10, clientY = 10\<rparr>]))) = 52.5 \<and>
   textWidth (snd (run appProps (\<lambda>_. None) (initialCtrl, initialData None [])
      (MouseDown Text Resize \<lparr>clientX = 0, clientY = 0\<rparr> #
       map MouseMove [\<lparr>clientX = 7, clientY = 3\<rparr>, \<lparr>clientX = 300, clientY = 0\<rparr>] @
       [MouseMove \<lparr>clientX = 20, clientY = 0\<rparr>]))) = 85"
proof -
  have h1: "onUpdateData appProps" and h2: "scale appProps \<noteq> 0" and h2': "scale appProps = 1"
    by (simp_all add: appProps_def)
  have h3: "canvas_ok (\<lambda>_. None) (initialData None [])"
    by (simp add: canvas_ok_def baseWidth_def baseHeight_def dimensions_of_def)
  have h4: "baseWidth (\<lambda>_. None) (initialData None []) = 400"
    by (simp add: baseWidth_def dimensions_of_def)
  have h5: "xc (textPosition (initialData None [])) = 50"
    and h6: "textWidth (initialData None []) = 80"
    by (simp_all add: initialData_def)
  note t = text_move_and_resize_sessions [OF h1 h2 h3, of initialCtrl _ _
      "[\<lparr>clientX = 7, clientY = 3\<rparr>, \<lparr>clientX = 300, clientY = 0\<rparr>]"]
  from t h2' h4 h5 h6 have
    "xc (textPosition (snd (run appProps (\<lambda>_. None) (initialCtrl, initialData None [])
      [MouseDown Text Drag \<lparr>clientX = 0, clientY = 0\<rparr>,
       MouseMove \<lparr>clientX = 10, clientY = 0\<rparr>]))) = 50 + 2.5"
    "xc (textPosition (snd (run appProps (\<lambda>_. None) (initialCtrl, initialData None [])
      [MouseDown Text Drag \<lparr>clientX = 0, clientY = 0\<rparr>,
       MouseMove \<lparr>clientX = 10, clientY = 0\<rparr>,
       MouseMove \<lparr>clientX = 10, clientY = 10\<rparr>]))) = 50 + 2.5"
    "textWidth (snd (run appProps (\<lambda>_. None) (initialCtrl, initialData None [])
      (MouseDown Text Resize \<lparr>clientX = 0, clientY = 0\<rparr> #
       map MouseMove [\<lparr>clientX = 7, clientY = 3\<rparr>, \<lparr>clientX = 300, clientY = 0\<rparr>] @
       [MouseMove \<lparr>clientX = 20, clientY = 0\<rparr>]))) = 80 + 5"
    by simp_all
  with h1 h2 h3 show ?thesis
    by simp
qed

text \<open>
  C2. A move is meant to add the percentage delta to the current position, as the Text
  path does. The Logo and Photo paths read the current coordinate through \<open>x || 10\<close>
  (\<open>90\<close> for the photo's x), so a coordinate of 0, which a drag to the canvas edge
  produces, is taken for the default. With display scale 1 and canvas width 400, the
  drag (0,0), (10,0), (10,10) of a logo at x = 0 ends at 12.5 where the increment of 2.5
  gives 2.5, which is what the same drag of the text at x = 0 gives; a logo dragged from
  its initial place onto the left edge, x = 0, jumps to 12.5 on the next move of 10
  pixels; a photo at x = 0 jumps to 92.5.
\<close>

theorem move_logo_zero_coordinate:
  "in_bounds ((initialData None [])\<lparr>logoPosition := \<lparr>xc = 0, yc = 10\<rparr>\<rparr>)
   \<and> xc (logoPosition (snd (run appProps (\<lambda>_. None)
        (initialCtrl, (initialData None [])\<lparr>logoPosition := \<lparr>xc = 0, yc = 10\<rparr>\<rparr>)
        [MouseDown Logo Drag \<lparr>clientX = 0, clientY = 0\<rparr>,
         MouseMove \<lparr>clientX = 10, clientY = 0\<rparr>]))) = 12.5
   \<and> xc (logoPosition (snd (run appProps (\<lambda>_. None)
        (initialCtrl, (initialData None [])\<lparr>logoPosition := \<lparr>xc = 0, yc = 10\<rparr>\<rparr>)
        [MouseDown Logo Drag \<lparr>clientX = 0, clientY = 0\<rparr>,
         MouseMove \<lparr>clientX = 10, clientY = 0\<rparr>,
         MouseMove \<lparr>clientX = 10, clientY = 10\<rparr>]))) = 12.5
   \<and> xc (textPosition (snd (run appProps (\<lambda>_. None)
        (initialCtrl, (initialData None [])\<lparr>textPosition := \<lparr>xc = 0, yc = 10\<rparr>\<rparr>)
        [MouseDown Text Drag \<lparr>clientX = 0, clientY = 0\<rparr>,
         MouseMove \<lparr>clientX = 10, clientY = 0\<rparr>,
         MouseMove \<lparr>clientX = 10, clientY = 10\<rparr>]))) = 2.5
   \<and> xc (logoPosition (snd (run appProps (\<lambda>_. None) (initialCtrl, initialData None [])
        [MouseDown Logo Drag \<lparr>clientX = 100, clientY = 0\<rparr>,
         MouseMove \<lparr>clientX = 0, clientY = 0\<rparr>]))) = 0
   \<and> xc (logoPosition (snd (run appProps (\<lambda>_. None) (initialCtrl, initialData None [])
        [MouseDown Logo Drag \<lparr>clientX = 100, clientY = 0\<rparr>,
         MouseMove \<lparr>clientX = 0, clientY = 0\<rparr>,
         MouseMove \<lparr>clientX = 10, clientY = 0\<rparr>]))) = 12.5
   \<and> xc (photoPosition (snd (run appProps (\<lambda>_. None)
        (initialCtrl, (initialData None [])\<lparr>photoPosition := \<lparr>xc = 0, yc = 10\<rparr>\<rparr>)
        [MouseDown Photo Drag \<lparr>clientX = 0, clientY = 0\<rparr>,
         MouseMove \<lparr>clientX = 10, clientY = 0\<rparr>]))) = 92.5"
  by (simp add: run_def handleMouseDown_def handleMouseMove_def applyDelta_def
      initialData_def initialCtrl_def appProps_def baseWidth_def baseHeight_def
      dimensions_of_def clamp_def js_or_def in_bounds_def Let_def)

text \<open>
  C3. With the callback supplied and a non-zero display scale, a scale event on the Text
  layer sets the text scale to the clamp to [0.5,3.0] of the captured scale plus 0.005
  times the sum of the two display-scale-corrected pixel deltas since the origin; a
  session started at a non-zero text scale ends, whatever events came in between, at
  the clamp of the start scale plus 0.005 times the total displacement; from scale 1.0,
  a total displacement of (100,100) at display scale 1 gives 2.0.
\<close>

theorem text_scale_formula:
  assumes "onUpdateData p" and "scale p \<noteq> 0"
  shows "handleMouseMove p dims (c\<lparr>activeDragId := Some Text, dragAction := Scale\<rparr>) d e =
      (c\<lparr>activeDragId := Some Text, dragAction := Scale\<rparr>,
       d\<lparr>textScale :=
           clamp 0.5 3.0 (initialScale c +
             0.005 * ((clientX e - xc (dragStart c)) / scale p +
                      (clientY e - yc (dragStart c)) / scale p))\<rparr>)
    \<and> (textScale d \<noteq> 0 \<longrightarrow>
         textScale (snd (run p dims (c, d)
            (MouseDown Text Scale e0 # map MouseMove evs @ [MouseMove e]))) =
         clamp 0.5 3.0 (textScale d +
             0.005 * ((clientX e - clientX e0) / scale p + (clientY e - clientY e0) / scale p)))
    \<and> (textScale d = 1.0 \<and> scale p = 1 \<and>
         clientX e - clientX e0 = 100 \<and> clientY e - clientY e0 = 100 \<longrightarrow>
         textScale (snd (run p dims (c, d)
            (MouseDown Text Scale e0 # map MouseMove evs @ [MouseMove e]))) = 2.0)"
proof -
  have step: "handleMouseMove p dims (c\<lparr>activeDragId := Some Text, dragAction := Scale\<rparr>) d e =
      (c\<lparr>activeDragId := Some Text, dragAction := Scale\<rparr>,
       d\<lparr>textScale :=
           clamp 0.5 3.0 (initialScale c +
             0.005 * ((clientX e - xc (dragStart c)) / scale p +
                      (clientY e - yc (dragStart c)) / scale p))\<rparr>)"
    using scale_text_step [OF assms(1), of "c\<lparr>activeDragId := Some Text, dragAction := Scale\<rparr>" dims d e]
    by (simp add: mult.commute)
  have sess: "textScale d \<noteq> 0 \<longrightarrow>
         textScale (snd (run p dims (c, d)
            (MouseDown Text Scale e0 # map MouseMove evs @ [MouseMove e]))) =
         clamp 0.5 3.0 (textScale d +
             0.005 * ((clientX e - clientX e0) / scale p + (clientY e - clientY e0) / scale p))"
    using scale_session_text [OF assms(1), of dims c d e0 evs e]
    by (simp add: js_or_def mult.commute)
  have conc: "textScale d = 1.0 \<and> scale p = 1 \<and>
         clientX e - clientX e0 = 100 \<and> clientY e - clientY e0 = 100 \<longrightarrow>
         textScale (snd (run p dims (c, d)
            (MouseDown Text Scale e0 # map MouseMove evs @ [MouseMove e]))) = 2.0"
    using scale_session_text [OF assms(1), of dims c d e0 evs e]
    by (simp add: js_or_def clamp_def)
  show ?thesis
    using step sess conc by blast
qed

theorem text_scale_formula_witness:
  "onUpdateData appProps \<and> scale appProps \<noteq> 0 \<and>
   textScale (snd (run appProps (\<lambda>_. None) (initialCtrl, initialData None [])
      (MouseDown Text Scale \<lparr>clientX = 30, clientY = 40\<rparr> #
       map MouseMove [\<lparr>clientX = 90, clientY = 45\<rparr>] @
       [MouseMove \<lparr>clientX = 130, clientY = 140\<rparr>]))) = 2.0"
proof -
  have h1: "onUpdateData appProps" and h2: "scale appProps \<noteq> 0" and h3: "scale appProps = 1"
    by (simp_all add: appProps_def)
  have h4: "textScale (initialData None []) = 1.0"
    by (simp add: initialData_def)
  note t = text_scale_formula [OF h1 h2, of "\<lambda>_. None" initialCtrl "initialData None []"
      "\<lparr>clientX = 130, clientY = 140\<rparr>" "\<lparr>clientX = 30, clientY = 40\<rparr>"
      "[\<lparr>clientX = 90, clientY = 45\<rparr>]"]
  from t h3 h4 have
    "textScale (snd (run appProps (\<lambda>_. None) (initialCtrl, initialData None [])
      (MouseDown Text Scale \<lparr>clientX = 30, clientY = 40\<rparr> #
       map MouseMove [\<lparr>clientX = 90, clientY = 45\<rparr>] @
       [MouseMove \<lparr>clientX = 130, clientY = 140\<rparr>]))) = 2.0"
    by simp
  with h1 h2 show ?thesis
    by simp
qed

text \<open>
  C5, as amended. A pointer-down starts a session in every state, Dragging included: the
  active layer, the action and the origin become those of the event, and the baseline of
  the new action is captured again (the width for a resize and for a scale of the logo or
  the photo, the scale for a scale of the text); the other baseline is kept. The
  controller holds one session at a time: pointer-up ends it, and a move without a
  session changes nothing.
\<close>

theorem pointer_down_replaces_session:
  "activeDragId (handleMouseDown d c e ident act) = Some ident
   \<and> dragAction (handleMouseDown d c e ident act) = act
   \<and> dragStart (handleMouseDown d c e ident act) = \<lparr>xc = clientX e, yc = clientY e\<rparr>
   \<and> initialWidth (handleMouseDown d c e ident act) =
       (case (ident, act) of
          (Text, Resize) \<Rightarrow> textWidth d
        | (Logo, Resize) \<Rightarrow> js_or (logoWidth d) 16
        | (Logo, Scale) \<Rightarrow> js_or (logoWidth d) 16
        | (Photo, Resize) \<Rightarrow> js_or (photoWidth d) 24
        | (Photo, Scale) \<Rightarrow> js_or (photoWidth d) 24
        | _ \<Rightarrow> initialWidth c)
   \<and> initialScale (handleMouseDown d c e ident act) =
       (case (ident, act) of
          (Text, Scale) \<Rightarrow> js_or (textScale d) 1
        | _ \<Rightarrow> initialScale c)
   \<and> activeDragId (handleMouseUp (handleMouseDown d c e ident act)) = None
   \<and> handleMouseMove p dims (handleMouseUp c) d e = (handleMouseUp c, d)"
  by (cases ident; cases act)
     (simp_all add: handleMouseDown_def handleMouseUp_def handleMouseMove_def)

theorem pointer_down_replaces_session_witness:
  "handleMouseDown (initialData None []) (initialCtrl\<lparr>activeDragId := Some Text\<rparr>)
      \<lparr>clientX = 5, clientY = 7\<rparr> Photo Scale =
     \<lparr>activeDragId = Some Photo, dragAction = Scale, dragStart = \<lparr>xc = 5, yc = 7\<rparr>,
      initialScale = 1, initialWidth = 24\<rparr>"
proof -
  note t = pointer_down_replaces_session [of "initialData None []"
      "initialCtrl\<lparr>activeDragId := Some Text\<rparr>" "\<lparr>clientX = 5, clientY = 7\<rparr>" Photo Scale]
  have "initialScale (initialCtrl\<lparr>activeDragId := Some Text\<rparr>) = 1"
       "js_or (photoWidth (initialData None [])) 24 = 24"
    by (simp_all add: initialCtrl_def initialData_def js_or_def)
  with t show ?thesis
    by (cases "handleMouseDown (initialData None []) (initialCtrl\<lparr>activeDragId := Some Text\<rparr>)
      \<lparr>clientX = 5, clientY = 7\<rparr> Photo Scale") simp
qed

text \<open>
  C5, as stated, fails: while a Text drag is active, a pointer-down on the resize handle
  of the logo is not ignored; it replaces the layer, the action, the origin and the
  captured width.
\<close>

theorem pointer_down_while_dragging_counterexample:
  "handleMouseDown (initialData None []) (initialCtrl\<lparr>activeDragId := Some Text\<rparr>)
      \<lparr>clientX = 5, clientY = 7\<rparr> Logo Resize =
     \<lparr>activeDragId = Some Logo, dragAction = Resize, dragStart = \<lparr>xc = 5, yc = 7\<rparr>,
      initialScale = 1, initialWidth = 16\<rparr>
   \<and> handleMouseDown (initialData None []) (initialCtrl\<lparr>activeDragId := Some Text\<rparr>)
      \<lparr>clientX = 5, clientY = 7\<rparr> Logo Resize \<noteq> initialCtrl\<lparr>activeDragId := Some Text\<rparr>"
  by (simp add: handleMouseDown_def initialCtrl_def initialData_def js_or_def)

text \<open>
  C6. For the logo and the photo a scale update is a resize update: the same argument of
  the update callback, the same baseline captured at pointer-down, the same poster after
  a move event and after a whole session; the text scale baseline is untouched, and the
  move writes only the layer's width, clamped to [5,60] for the logo and [10,90] for the
  photo.
\<close>

theorem nontext_scale_is_resize:
  assumes "ident \<noteq> Text"
  shows "applyDelta dims (c\<lparr>dragAction := Scale\<rparr>) d ident deltaX deltaY =
         applyDelta dims (c\<lparr>dragAction := Resize\<rparr>) d ident deltaX deltaY
    \<and> handleMouseDown d c e0 ident Scale =
        (handleMouseDown d c e0 ident Resize)\<lparr>dragAction := Scale\<rparr>
    \<and> snd (handleMouseMove p dims (c\<lparr>activeDragId := Some ident, dragAction := Scale\<rparr>) d e) =
        snd (handleMouseMove p dims (c\<lparr>activeDragId := Some ident, dragAction := Resize\<rparr>) d e)
    \<and> snd (run p dims (c, d) (MouseDown ident Scale e0 # map MouseMove evs)) =
        snd (run p dims (c, d) (MouseDown ident Resize e0 # map MouseMove evs))
    \<and> initialScale (handleMouseDown d c e0 ident Scale) = initialScale c
    \<and> (onUpdateData p \<longrightarrow>
        snd (handleMouseMove p dims (c\<lparr>activeDragId := Some Logo, dragAction := Scale\<rparr>) d e) =
          d\<lparr>logoWidth := clamp 5 60 (initialWidth c +
              (clientX e - xc (dragStart c)) / scale p / baseWidth dims d * 100)\<rparr>
        \<and> snd (handleMouseMove p dims (c\<lparr>activeDragId := Some Photo, dragAction := Scale\<rparr>) d e) =
          d\<lparr>photoWidth := clamp 10 90 (initialWidth c +
              (clientX e - xc (dragStart c)) / scale p / baseWidth dims d * 100)\<rparr>)"
proof -
  have mv: "snd (handleMouseMove p dims (c\<lparr>activeDragId := Some ident, dragAction := Scale\<rparr>) d e) =
        snd (handleMouseMove p dims (c\<lparr>activeDragId := Some ident, dragAction := Resize\<rparr>) d e)"
    using assms by (cases ident) (simp_all add: handleMouseMove_def applyDelta_def Let_def)
  have w: "onUpdateData p \<longrightarrow>
        snd (handleMouseMove p dims (c\<lparr>activeDragId := Some Logo, dragAction := Scale\<rparr>) d e) =
          d\<lparr>logoWidth := clamp 5 60 (initialWidth c +
              (clientX e - xc (dragStart c)) / scale p / baseWidth dims d * 100)\<rparr>
        \<and> snd (handleMouseMove p dims (c\<lparr>activeDragId := Some Photo, dragAction := Scale\<rparr>) d e) =
          d\<lparr>photoWidth := clamp 10 90 (initialWidth c +
              (clientX e - xc (dragStart c)) / scale p / baseWidth dims d * 100)\<rparr>"
    using nontext_width_only [of p Scale dims c d e] by simp
  show ?thesis
    using mv w scale_eq_resize_patch [OF assms, of dims c d deltaX deltaY]
      scale_eq_resize_down [OF assms, of d c e0]
      scale_eq_resize_session [OF assms, of p dims c d e0 evs]
      nontext_down_scale [OF assms, of d c e0 Scale]
    by blast
qed

theorem nontext_scale_is_resize_witness:
  "Logo \<noteq> Text \<and> onUpdateData appProps \<and>
   snd (run appProps (\<lambda>_. None) (initialCtrl, initialData None [])
      (MouseDown Logo Scale \<lparr>clientX = 0, clientY = 0\<rparr> #
       map MouseMove [\<lparr>clientX = 40, clientY = 90\<rparr>])) =
   snd (run appProps (\<lambda>_. None) (initialCtrl, initialData None [])
      (MouseDown Logo Resize \<lparr>clientX = 0, clientY = 0\<rparr> #
       map MouseMove [\<lparr>clientX = 40, clientY = 90\<rparr>])) \<and>
   logoWidth (snd (handleMouseMove appProps (\<lambda>_. None)
      (initialCtrl\<lparr>initialWidth := 16, activeDragId := Some Logo, dragAction := Scale\<rparr>)
      (initialData None []) \<lparr>clientX = 40, clientY = 90\<rparr>)) = 26"
proof -
  have h1: "Logo \<noteq> Text" by simp
  have h2: "onUpdateData appProps" by (simp add: appProps_def)
  note t = nontext_scale_is_resize [OF h1, of "\<lambda>_. None" "initialCtrl\<lparr>initialWidth := 16\<rparr>"
      "initialData None []" _ _ _ appProps "\<lparr>clientX = 40, clientY = 90\<rparr>"]
  note u = nontext_scale_is_resize [OF h1, of _ initialCtrl
      "initialData None []" _ _ "\<lparr>clientX = 0, clientY = 0\<rparr>" appProps _
      "[\<lparr>clientX = 40, clientY = 90\<rparr>]"]
  have v: "clamp 5 60 (initialWidth (initialCtrl\<lparr>initialWidth := 16\<rparr>) +
      (clientX \<lparr>clientX = 40, clientY = 90\<rparr> - xc (dragStart (initialCtrl\<lparr>initialWidth := 16\<rparr>)))
        / scale appProps / baseWidth (\<lambda>_. None) (initialData None []) * 100) = 26"
    by (simp add: clamp_def initialCtrl_def appProps_def baseWidth_def dimensions_of_def)
  from t h2 have "snd (handleMouseMove appProps (\<lambda>_. None)
      (initialCtrl\<lparr>initialWidth := 16, activeDragId := Some Logo, dragAction := Scale\<rparr>)
      (initialData None []) \<lparr>clientX = 40, clientY = 90\<rparr>) =
      (initialData None [])\<lparr>logoWidth := clamp 5 60 (initialWidth (initialCtrl\<lparr>initialWidth := 16\<rparr>) +
      (clientX \<lparr>clientX = 40, clientY = 90\<rparr> - xc (dragStart (initialCtrl\<lparr>initialWidth := 16\<rparr>)))
        / scale appProps / baseWidth (\<lambda>_. None) (initialData None []) * 100)\<rparr>"
    by blast
  then have w: "logoWidth (snd (handleMouseMove appProps (\<lambda>_. None)
      (initialCtrl\<lparr>initialWidth := 16, activeDragId := Some Logo, dragAction := Scale\<rparr>)
      (initialData None []) \<lparr>clientX = 40, clientY = 90\<rparr>)) = 26"
    by (simp only: v) simp
  from u have r: "snd (run appProps (\<lambda>_. None) (initialCtrl, initialData None [])
      (MouseDown Logo Scale \<lparr>clientX = 0, clientY = 0\<rparr> #
       map MouseMove [\<lparr>clientX = 40, clientY = 90\<rparr>])) =
   snd (run appProps (\<lambda>_. None) (initialCtrl, initialData None [])
      (MouseDown Logo Resize \<lparr>clientX = 0, clientY = 0\<rparr> #
       map MouseMove [\<lparr>clientX = 40, clientY = 90\<rparr>]))"
    by blast
  from h1 h2 r w show ?thesis
    by blast
qed

text \<open>
  C10. A move event changes at most one field of the poster: the position of the active
  layer for a drag, the width of the active layer for a resize and for a scale of the
  logo or the photo, the text scale for a scale of the text; without a session it
  changes nothing, and neither do pointer-down and pointer-up.
\<close>

theorem pointer_move_frame:
  "(case activeDragId c of
      None \<Rightarrow> snd (handleMouseMove p dims c d e) = d
    | Some Text \<Rightarrow>
        (case dragAction c of
           Drag \<Rightarrow> snd (handleMouseMove p dims c d e) =
                    d\<lparr>textPosition := textPosition (snd (handleMouseMove p dims c d e))\<rparr>
         | Resize \<Rightarrow> snd (handleMouseMove p dims c d e) =
                    d\<lparr>textWidth := textWidth (snd (handleMouseMove p dims c d e))\<rparr>
         | Scale \<Rightarrow> snd (handleMouseMove p dims c d e) =
                    d\<lparr>textScale := textScale (snd (handleMouseMove p dims c d e))\<rparr>)
    | Some Logo \<Rightarrow>
        (case dragAction c of
           Drag \<Rightarrow> snd (handleMouseMove p dims c d e) =
                    d\<lparr>logoPosition := logoPosition (snd (handleMouseMove p dims c d e))\<rparr>
         | _ \<Rightarrow> snd (handleMouseMove p dims c d e) =
                    d\<lparr>logoWidth := logoWidth (snd (handleMouseMove p dims c d e))\<rparr>)
    | Some Photo \<Rightarrow>
        (case dragAction c of
           Drag \<Rightarrow> snd (handleMouseMove p dims c d e) =
                    d\<lparr>photoPosition := photoPosition (snd (handleMouseMove p dims c d e))\<rparr>
         | _ \<Rightarrow> snd (handleMouseMove p dims c d e) =
                    d\<lparr>photoWidth := photoWidth (snd (handleMouseMove p dims c d e))\<rparr>))
   \<and> snd (step p dims (c, d) (MouseDown ident act e)) = d
   \<and> snd (step p dims (c, d) MouseUp) = d"
proof (cases "activeDragId c")
  case None
  then show ?thesis by (simp add: handleMouseMove_def)
next
  case (Some l)
  then show ?thesis
    by (cases l; cases "dragAction c")
       (simp_all add: handleMouseMove_def applyDelta_def Let_def)
qed

theorem pointer_move_frame_witness:
  "snd (handleMouseMove appProps (\<lambda>_. None) (initialCtrl\<lparr>activeDragId := Some Logo\<rparr>)
        (initialData None []) \<lparr>clientX = 8, clientY = 9\<rparr>) =
   (initialData None [])\<lparr>logoPosition :=
      logoPosition (snd (handleMouseMove appProps (\<lambda>_. None)
        (initialCtrl\<lparr>activeDragId := Some Logo\<rparr>)
        (initialData None []) \<lparr>clientX = 8, clientY = 9\<rparr>))\<rparr>"
  using pointer_move_frame [where c = "initialCtrl\<lparr>activeDragId := Some Logo\<rparr>"
      and p = appProps and dims = "\<lambda>_. None" and d = "initialData None []"
      and e = "\<lparr>clientX = 8, clientY = 9\<rparr>"]
  by (simp add: initialCtrl_def)

section \<open>Keyword selection\<close>

lemma length_toLowerCase: "length (toLowerCase w) = length w"
  by (simp add: toLowerCase_def)

lemma toUpperChar_upper: "is_upper ch \<Longrightarrow> toUpperChar ch = ch"
  by (simp add: toUpperChar_def is_upper_def is_lower_def)

lemma score_candidate_of: "score (candidate_of w) = spec_score w"
proof (cases w)
  case Nil
  then show ?thesis
    by (simp add: candidate_of_def spec_score_def toLowerCase_def)
next
  case (Cons ch cs)
  then show ?thesis
    using toUpperChar_upper [of ch]
    by (auto simp: candidate_of_def spec_score_def length_toLowerCase Let_def)
qed

lemma word_candidate_of: "word (candidate_of w) = toLowerCase w"
  by (simp add: candidate_of_def Let_def)

lemma insort_key_map:
  "insort_key f (g x) (map g ys) = map g (insort_key (\<lambda>y. f (g y)) x ys)"
  by (induction ys) simp_all

lemma sort_key_map:
  "sort_key f (map g xs) = map g (sort_key (\<lambda>y. f (g y)) xs)"
  by (induction xs) (simp_all add: insort_key_map)

lemma first_distinct_set:
  "set s = set s' \<Longrightarrow> first_distinct s ws = first_distinct s' ws"
proof (induction ws arbitrary: s s')
  case Nil
  show ?case by simp
next
  case (Cons w ws)
  have "first_distinct (w # s) ws = first_distinct (w # s') ws"
    by (rule Cons.IH) (simp add: Cons.prems)
  moreover have "first_distinct s ws = first_distinct s' ws"
    by (rule Cons.IH) (rule Cons.prems)
  ultimately show ?case
    using Cons.prems by simp
qed

lemma add_top_first_distinct:
  "length acc \<le> 3 \<Longrightarrow>
   add_top acc cs = take 3 (acc @ first_distinct acc (map word cs))"
proof (induction cs arbitrary: acc)
  case Nil
  then show ?case by simp
next
  case (Cons c cs)
  show ?case
  proof (cases "length acc \<ge> 3")
    case True
    with Cons.prems show ?thesis by simp
  next
    case False
    show ?thesis
    proof (cases "word c \<in> set acc")
      case True
      with False Cons.prems Cons.IH [of acc] show ?thesis by simp
    next
      case notin: False
      have len: "length (acc @ [word c]) \<le> 3"
        using False by simp
      have "first_distinct (acc @ [word c]) (map word cs) =
            first_distinct (word c # acc) (map word cs)"
        by (rule first_distinct_set) auto
      with False notin Cons.IH [OF len] show ?thesis by simp
    qed
  qed
qed

lemma add_top_length: "length acc \<le> 3 \<Longrightarrow> length (add_top acc cs) \<le> 3"
  by (simp add: add_top_first_distinct)

lemma first_distinct_distinct:
  "distinct (first_distinct s ws) \<and> set (first_distinct s ws) \<inter> set s = {}"
  by (induction s ws rule: first_distinct.induct) auto

lemma add_top_distinct: "distinct (add_top [] cs)"
  using first_distinct_distinct [of "[]" "map word cs"]
  by (simp add: add_top_first_distinct)

lemma spec_score_nonempty: "(w \<noteq> [] \<and> 0 < spec_score w) = (0 < spec_score w)"
  by (auto simp: spec_score_def)

lemma highlighted_refines:
  assumes "mode d = VERSE"
  shows "highlightedKeywords d = spec_selectHighlights (verseText d)"
proof (cases "verseText d = []")
  case True
  then show ?thesis
    using assms
    by (simp add: highlightedKeywords_def spec_selectHighlights_def split_words_def)
next
  case False
  let ?ws = "split_words (verseText d)"
  have f: "filter (\<lambda>c. score c > 0) (map candidate_of ?ws) =
           map candidate_of (filter (\<lambda>w. spec_score w > 0) ?ws)"
    by (simp add: filter_map o_def score_candidate_of)
  have s: "sort_by_score (map candidate_of (filter (\<lambda>w. spec_score w > 0) ?ws)) =
           map candidate_of (sort_key (\<lambda>w. - int (spec_score w)) (filter (\<lambda>w. spec_score w > 0) ?ws))"
    by (simp add: sort_by_score_def sort_key_map score_candidate_of)
  have w: "\<And>xs. map word (map candidate_of xs) = map toLowerCase xs"
    by (simp add: word_candidate_of)
  show ?thesis
    using assms False
    by (simp add: highlightedKeywords_def spec_selectHighlights_def Let_def f s
        add_top_first_distinct w spec_score_nonempty del: map_map)
qed

lemma sort_by_score_descending:
  "sorted (map (\<lambda>c. - int (score c)) (sort_by_score cs))"
  by (simp add: sort_by_score_def)

lemma sort_by_score_stable:
  "filter (\<lambda>c. score c = k) (sort_by_score cs) = filter (\<lambda>c. score c = k) cs"
proof -
  have "filter (\<lambda>c. - int (score c) = - int k) (sort_by_score cs) =
        filter (\<lambda>c. - int (score c) = - int k) cs"
    unfolding sort_by_score_def by (rule sort_key_stable)
  then show ?thesis by simp
qed

lemma verse_example:
  "add_top [] (sort_by_score (filter (\<lambda>c. 0 < score c)
      (map candidate_of (split_words ''For God so loved the world'')))) =
   [''god'', ''world'', ''for'']"
  by code_simp

lemma verse_candidates:
  "map candidate_of (split_words ''For God so loved the world'') =
   [\<lparr>word = ''for'', score = 5\<rparr>, \<lparr>word = ''god'', score = 28\<rparr>,
    \<lparr>word = ''so'', score = 0\<rparr>, \<lparr>word = ''loved'', score = 5\<rparr>,
    \<lparr>word = ''the'', score = 0\<rparr>, \<lparr>word = ''world'', score = 25\<rparr>]"
  by code_simp

text \<open>
  C4, as amended. In verse mode the selected keywords are those of the specification's
  algorithm: the score of a token is 0 below three characters and otherwise 20 for a
  thematic keyword, plus the length for a word outside the stop list, plus 5 for a
  capital initial; tokens of positive score are sorted by descending score, equal scores
  keeping their order in the text, and the first three distinct lower-cased words are
  taken. The result has at most three words, all distinct. For the verse
  "For God so loved the world" it is "god", "world", "for": the stop word "for" scores
  5 for its capital initial and comes before "loved", which also scores 5.
\<close>

theorem highlights_algorithm:
  "(mode d = VERSE \<longrightarrow> highlightedKeywords d = spec_selectHighlights (verseText d))
   \<and> length (highlightedKeywords d) \<le> 3
   \<and> distinct (highlightedKeywords d)
   \<and> score (candidate_of w) = spec_score w
   \<and> word (candidate_of w) = toLowerCase w
   \<and> sorted (map (\<lambda>c. - int (score c)) (sort_by_score cs))
   \<and> filter (\<lambda>c. score c = k) (sort_by_score cs) = filter (\<lambda>c. score c = k) cs
   \<and> highlightedKeywords (d\<lparr>mode := VERSE, verseText := ''For God so loved the world''\<rparr>) =
       [''god'', ''world'', ''for'']"
proof -
  have r: "mode d = VERSE \<longrightarrow> highlightedKeywords d = spec_selectHighlights (verseText d)"
    using highlighted_refines by blast
  have l: "length (highlightedKeywords d) \<le> 3"
    by (simp add: highlightedKeywords_def Let_def add_top_length)
  have di: "distinct (highlightedKeywords d)"
    by (simp add: highlightedKeywords_def Let_def add_top_distinct)
  have ex: "highlightedKeywords (d\<lparr>mode := VERSE, verseText := ''For God so loved the world''\<rparr>) =
       [''god'', ''world'', ''for'']"
    by (simp add: highlightedKeywords_def verse_example)
  show ?thesis
    using r l di ex
    by (simp only: score_candidate_of word_candidate_of sort_by_score_descending
        sort_by_score_stable simp_thms)
qed

theorem highlights_algorithm_witness:
  "mode (initialData None []) = VERSE \<and>
   highlightedKeywords (initialData None []) =
     spec_selectHighlights (verseText (initialData None [])) \<and>
   highlightedKeywords
     ((initialData None [])\<lparr>mode := VERSE, verseText := ''For God so loved the world''\<rparr>) =
     [''god'', ''world'', ''for'']"
proof -
  have h: "mode (initialData None []) = VERSE"
    by (simp add: initialData_def)
  note t = highlights_algorithm [of "initialData None []"]
  from t h show ?thesis
    by blast
qed

text \<open>
  C4, as stated, fails: the keywords of "For God so loved the world" contain "for".
\<close>

theorem highlights_for_counterexample:
  "''for'' \<in> set (highlightedKeywords
      ((initialData None [])\<lparr>verseText := ''For God so loved the world''\<rparr>))
   \<and> set (highlightedKeywords
      ((initialData None [])\<lparr>verseText := ''For God so loved the world''\<rparr>)) =
     {''god'', ''world'', ''for''}"
  by (simp add: highlightedKeywords_def initialData_def verse_example)

section \<open>Gradient colours\<close>

lemma gradient_base:
  assumes "startsWith color ''linear-gradient''"
  shows "css_color (getTextEffectStyles d effect color) = Some ''transparent''"
    and "css_WebkitTextFillColor (getTextEffectStyles d effect color) = Some ''transparent''"
    and "css_backgroundImage (getTextEffectStyles d effect color) = Some color"
    and "css_backgroundClip (getTextEffectStyles d effect color) = Some ''text''"
    and "css_WebkitBackgroundClip (getTextEffectStyles d effect color) = Some ''text''"
  using assms by (cases effect; simp add: getTextEffectStyles_def)+

lemma outline_stroke:
  "css_WebkitTextStroke (getTextEffectStyles d OUTLINE color) =
     Some (if color = ''#000000'' then ''1px #ffffff'' else ''1px #000000'')"
  by (simp add: getTextEffectStyles_def Let_def)

lemma accent_gradient:
  assumes "startsWith (textColor d) ''linear-gradient''"
  shows "css_color (accentStyle d) = Some ''#ffffff''"
    and "css_backgroundImage (accentStyle d) = None"
  using assms by (simp_all add: accentStyle_def)

text \<open>
  C7. For a colour that starts with \<open>linear-gradient\<close> and every effect, the text style
  has the colour and the text fill colour \<open>transparent\<close>, the gradient as background
  image and the background clipped to the text; the accent style of a poster with such
  a text colour has the colour \<open>#ffffff\<close> and no background image. The outline effect
  strokes with \<open>#ffffff\<close> when the colour is \<open>#000000\<close> and with \<open>#000000\<close> otherwise.
\<close>

theorem gradient_text_styles:
  "(startsWith color ''linear-gradient'' \<longrightarrow>
      css_color (getTextEffectStyles d effect color) = Some ''transparent''
    \<and> css_WebkitTextFillColor (getTextEffectStyles d effect color) = Some ''transparent''
    \<and> css_backgroundImage (getTextEffectStyles d effect color) = Some color
    \<and> css_backgroundClip (getTextEffectStyles d effect color) = Some ''text''
    \<and> css_WebkitBackgroundClip (getTextEffectStyles d effect color) = Some ''text'')
   \<and> (startsWith (textColor d) ''linear-gradient'' \<longrightarrow>
      css_color (textStyle d) = Some ''transparent''
    \<and> css_backgroundImage (textStyle d) = Some (textColor d)
    \<and> css_color (accentStyle d) = Some ''#ffffff''
    \<and> css_backgroundImage (accentStyle d) = None)
   \<and> css_WebkitTextStroke (getTextEffectStyles d OUTLINE color) =
       Some (if color = ''#000000'' then ''1px #ffffff'' else ''1px #000000'')"
  using gradient_base [of color d effect] gradient_base [of "textColor d" d "textEffect d"]
    accent_gradient [of d] outline_stroke [of d color]
  by (simp add: textStyle_def)

theorem gradient_text_styles_witness:
  "startsWith ''linear-gradient(90deg, #f00, #00f)'' ''linear-gradient'' \<and>
   css_color (getTextEffectStyles (initialData None []) NEON ''linear-gradient(90deg, #f00, #00f)'')
     = Some ''transparent'' \<and>
   css_backgroundImage
     (getTextEffectStyles (initialData None []) NEON ''linear-gradient(90deg, #f00, #00f)'')
     = Some ''linear-gradient(90deg, #f00, #00f)'' \<and>
   css_color (accentStyle
     ((initialData None [])\<lparr>textColor := ''linear-gradient(90deg, #f00, #00f)''\<rparr>))
     = Some ''#ffffff'' \<and>
   css_WebkitTextStroke (getTextEffectStyles (initialData None []) OUTLINE ''#000000'')
     = Some ''1px #ffffff''"
proof -
  have h: "startsWith ''linear-gradient(90deg, #f00, #00f)'' ''linear-gradient''"
    by (simp add: startsWith_def)
  have h': "startsWith (textColor
      ((initialData None [])\<lparr>textColor := ''linear-gradient(90deg, #f00, #00f)''\<rparr>))
      ''linear-gradient''"
    by (simp add: startsWith_def)
  note t1 = gradient_text_styles [of "''linear-gradient(90deg, #f00, #00f)''"
      "initialData None []" NEON]
  note t2 = gradient_text_styles [of "''#000000''"
      "(initialData None [])\<lparr>textColor := ''linear-gradient(90deg, #f00, #00f)''\<rparr>" NONE]
  note t3 = gradient_text_styles [of "''#000000''" "initialData None []" NONE]
  from t3 have s: "css_WebkitTextStroke (getTextEffectStyles (initialData None []) OUTLINE ''#000000'')
     = Some ''1px #ffffff''"
    by simp
  from t1 t2 h h' s show ?thesis
    by blast
qed

section \<open>Service boundaries\<close>

lemma translateText_never_throws:
  "\<not> isl (snd (translateText env text_in targetLanguage))"
  by (simp add: translateText_def split: prod.splits sum.splits)

lemma translateText_english:
  "translateText env text_in ''English'' = ([], Inr text_in)"
  by (simp add: translateText_def)

lemma translateText_fallback:
  assumes "targetLanguage \<noteq> ''English''" "provider_gives_nothing env text_in targetLanguage"
  shows "snd (translateText env text_in targetLanguage) = Inr text_in"
  using assms
  by (auto simp: translateText_def translateText_try_def provider_gives_nothing_def
      getAiInstance_def Let_def split: option.splits sum.splits if_splits)

lemma translateText_success:
  assumes "targetLanguage \<noteq> ''English''" "API_KEY env = Some k" "k \<noteq> []"
    "generateContent env (translate_request text_in targetLanguage) = Inr (Some t)"
    "trim t \<noteq> []"
  shows "translateText env text_in targetLanguage =
           ([translate_request text_in targetLanguage], Inr (trim t))"
  using assms
  by (simp add: translateText_def translateText_try_def getAiInstance_def Let_def)

lemma translateText_calls:
  "fst (translateText env text_in targetLanguage) =
     (if targetLanguage = ''English'' \<or> API_KEY env = None \<or> API_KEY env = Some [] then []
      else [translate_request text_in targetLanguage])"
  by (auto simp: translateText_def translateText_try_def getAiInstance_def Let_def
      split: option.splits sum.splits)

lemma tryFetch_never_throws: "\<not> isl (tryFetch net reference v)"
  by (simp add: tryFetch_def split: sum.splits)

lemma tryFetch_fails: "tryFetch net reference v = Inr None \<longleftrightarrow> fetch_fails net reference v"
  by (auto simp: tryFetch_def tryFetch_try_def fetch_fails_def
      split: sum.splits fetch_outcome.splits json_body.splits option.splits if_splits)

lemma tryFetch_found:
  "\<not> fetch_fails net reference v \<Longrightarrow>
   \<exists>r t. net (verse_url reference v) = Response True (JsonObject r (Some t)) \<and>
     tryFetch net reference v =
       Inr (Some \<lparr>vr_reference = r, vr_text = trim t, vr_translation_id = toUpperCase v\<rparr>)"
  by (auto simp: tryFetch_def tryFetch_try_def fetch_fails_def
      split: sum.splits fetch_outcome.splits json_body.splits option.splits if_splits)

lemma tryFetch_not_Inl: "tryFetch net reference v \<noteq> Inl err"
  by (simp add: tryFetch_def split: sum.splits)

lemma fetchVerse_never_throws: "\<not> isl (snd (fetchVerse net reference version_arg))"
  by (auto simp: fetchVerse_def Let_def tryFetch_not_Inl split: sum.splits option.splits)

lemma fetchVerse_result:
  "snd (fetchVerse net reference version_arg) =
     (let version = (case version_arg of None \<Rightarrow> ''web'' | Some v \<Rightarrow> v)
      in if fetch_fails net reference version \<and> version \<noteq> ''web''
         then tryFetch net reference ''web''
         else tryFetch net reference version)"
  by (auto simp: fetchVerse_def Let_def tryFetch_not_Inl tryFetch_fails [symmetric]
      split: sum.splits option.splits)

lemma fetchVerse_urls:
  "fst (fetchVerse net reference version_arg) =
     (let version = (case version_arg of None \<Rightarrow> ''web'' | Some v \<Rightarrow> v)
      in if fetch_fails net reference version \<and> version \<noteq> ''web''
         then [verse_url reference version, verse_url reference ''web'']
         else [verse_url reference version])"
  by (auto simp: fetchVerse_def Let_def tryFetch_not_Inl tryFetch_fails [symmetric]
      split: sum.splits option.splits)

text \<open>
  C8. For the target language English, \<open>translateText\<close> returns the input and sends no
  request. For every target language it returns a value and never throws, it sends at
  most one request, and when the service fails or answers with nothing (no API key, a
  thrown error, an undefined or blank text) it returns the input.
\<close>

theorem translateText_passthrough:
  "translateText env text_in ''English'' = ([], Inr text_in)
   \<and> \<not> isl (snd (translateText env text_in targetLanguage))
   \<and> (provider_gives_nothing env text_in targetLanguage \<longrightarrow>
        snd (translateText env text_in targetLanguage) = Inr text_in)
   \<and> length (fst (translateText env text_in targetLanguage)) \<le> 1"
proof -
  have fb: "provider_gives_nothing env text_in targetLanguage \<longrightarrow>
        snd (translateText env text_in targetLanguage) = Inr text_in"
  proof (cases "targetLanguage = ''English''")
    case True
    then show ?thesis by (simp add: translateText_english)
  next
    case False
    then show ?thesis using translateText_fallback by blast
  qed
  have n: "length (fst (translateText env text_in targetLanguage)) \<le> 1"
    by (simp add: translateText_calls)
  show ?thesis
    using fb n translateText_never_throws [of env text_in targetLanguage]
    by (simp only: translateText_english simp_thms)
qed

theorem translateText_passthrough_witness:
  "provider_gives_nothing
     \<lparr>API_KEY = Some ''key'', generateContent = (\<lambda>r. Inr (Some ''   ''))\<rparr> ''Grace'' ''French'' \<and>
   snd (translateText
     \<lparr>API_KEY = Some ''key'', generateContent = (\<lambda>r. Inr (Some ''   ''))\<rparr> ''Grace'' ''French'')
     = Inr ''Grace'' \<and>
   provider_gives_nothing
     \<lparr>API_KEY = Some ''key'', generateContent = (\<lambda>r. Inl (Error ''503''))\<rparr> ''Grace'' ''French'' \<and>
   snd (translateText
     \<lparr>API_KEY = Some ''key'', generateContent = (\<lambda>r. Inl (Error ''503''))\<rparr> ''Grace'' ''French'')
     = Inr ''Grace''"
proof -
  have h1: "provider_gives_nothing
     \<lparr>API_KEY = Some ''key'', generateContent = (\<lambda>r. Inr (Some ''   ''))\<rparr> ''Grace'' ''French''"
    by (simp add: provider_gives_nothing_def trim_def is_space_def)
  have h2: "provider_gives_nothing
     \<lparr>API_KEY = Some ''key'', generateContent = (\<lambda>r. Inl (Error ''503''))\<rparr> ''Grace'' ''French''"
    by (simp add: provider_gives_nothing_def)
  note t1 = translateText_passthrough
      [of "\<lparr>API_KEY = Some ''key'', generateContent = (\<lambda>r. Inr (Some ''   ''))\<rparr>" "''Grace''" "''French''"]
  note t2 = translateText_passthrough
      [of "\<lparr>API_KEY = Some ''key'', generateContent = (\<lambda>r. Inl (Error ''503''))\<rparr>" "''Grace''" "''French''"]
  from t1 t2 h1 h2 show ?thesis
    by blast
qed

text \<open>
  C9. \<open>fetchVerse\<close> never throws. With a version given, it returns null exactly when
  the fetch of that version fails and, unless the version is \<open>web\<close>, the fetch of \<open>web\<close>
  fails too; the second fetch is made exactly when the first fails and the version is
  not \<open>web\<close>, and then its result is the result. Without a version, \<open>web\<close> is fetched,
  once. A fetch fails exactly when the request is rejected, the response is not ok, the
  body is not JSON or has no string text.
\<close>

theorem fetchVerse_fallback:
  "\<not> isl (snd (fetchVerse net reference version_arg))
   \<and> (snd (fetchVerse net reference (Some version)) = Inr None \<longleftrightarrow>
        fetch_fails net reference version \<and>
        (version \<noteq> ''web'' \<longrightarrow> fetch_fails net reference ''web''))
   \<and> (snd (fetchVerse net reference None) = Inr None \<longleftrightarrow> fetch_fails net reference ''web'')
   \<and> fst (fetchVerse net reference (Some version)) =
       (if fetch_fails net reference version \<and> version \<noteq> ''web''
        then [verse_url reference version, verse_url reference ''web'']
        else [verse_url reference version])
   \<and> fst (fetchVerse net reference None) = [verse_url reference ''web'']
   \<and> snd (fetchVerse net reference (Some version)) =
       (if fetch_fails net reference version \<and> version \<noteq> ''web''
        then tryFetch net reference ''web''
        else tryFetch net reference version)
   \<and> (tryFetch net reference version = Inr None \<longleftrightarrow> fetch_fails net reference version)"
proof -
  have a: "snd (fetchVerse net reference (Some version)) = Inr None \<longleftrightarrow>
        fetch_fails net reference version \<and>
        (version \<noteq> ''web'' \<longrightarrow> fetch_fails net reference ''web'')"
    by (auto simp: fetchVerse_result tryFetch_fails)
  have b: "snd (fetchVerse net reference None) = Inr None \<longleftrightarrow> fetch_fails net reference ''web''"
    by (simp add: fetchVerse_result tryFetch_fails)
  have c: "fst (fetchVerse net reference (Some version)) =
       (if fetch_fails net reference version \<and> version \<noteq> ''web''
        then [verse_url reference version, verse_url reference ''web'']
        else [verse_url reference version])"
    by (simp add: fetchVerse_urls)
  have d: "fst (fetchVerse net reference None) = [verse_url reference ''web'']"
    by (simp add: fetchVerse_urls)
  have e: "snd (fetchVerse net reference (Some version)) =
       (if fetch_fails net reference version \<and> version \<noteq> ''web''
        then tryFetch net reference ''web''
        else tryFetch net reference version)"
    by (simp add: fetchVerse_result)
  show ?thesis
    using a b c d e fetchVerse_never_throws [of net reference version_arg]
      tryFetch_fails [of net reference version]
    by blast
qed

theorem fetchVerse_fallback_witness:
  "fetch_fails sample_net ''John 3:16'' ''kjv'' \<and> ''kjv'' \<noteq> ''web'' \<and>
   \<not> fetch_fails sample_net ''John 3:16'' ''web'' \<and>
   fetchVerse sample_net ''John 3:16'' (Some ''kjv'') =
     ([''https://bible-api.com/John%203%3A16?translation=kjv'',
       ''https://bible-api.com/John%203%3A16?translation=web''],
      Inr (Some \<lparr>vr_reference = Some ''John 3:16'', vr_text = ''For God so loved the world'',
                  vr_translation_id = ''WEB''\<rparr>))"
proof -
  have u1: "verse_url ''John 3:16'' ''kjv'' = ''https://bible-api.com/John%203%3A16?translation=kjv''"
    by code_simp
  have u2: "verse_url ''John 3:16'' ''web'' = ''https://bible-api.com/John%203%3A16?translation=web''"
    by code_simp
  have h1: "fetch_fails sample_net ''John 3:16'' ''kjv''"
    by (simp add: fetch_fails_def u1 sample_net_def)
  have h2: "''kjv'' \<noteq> ''web''"
    by simp
  have h3: "\<not> fetch_fails sample_net ''John 3:16'' ''web''"
    by (simp add: fetch_fails_def u2 sample_net_def)
  have r: "tryFetch sample_net ''John 3:16'' ''web'' =
      Inr (Some \<lparr>vr_reference = Some ''John 3:16'', vr_text = ''For God so loved the world'',
                  vr_translation_id = ''WEB''\<rparr>)"
    by code_simp
  note t = fetchVerse_fallback [of sample_net "''John 3:16''" "Some ''kjv''" "''kjv''"]
  from t h1 h2 have "fst (fetchVerse sample_net ''John 3:16'' (Some ''kjv'')) =
      [verse_url ''John 3:16'' ''kjv'', verse_url ''John 3:16'' ''web'']"
    and "snd (fetchVerse sample_net ''John 3:16'' (Some ''kjv'')) =
      tryFetch sample_net ''John 3:16'' ''web''"
    by simp_all
  then have "fetchVerse sample_net ''John 3:16'' (Some ''kjv'') =
     ([''https://bible-api.com/John%203%3A16?translation=kjv'',
       ''https://bible-api.com/John%203%3A16?translation=web''],
      Inr (Some \<lparr>vr_reference = Some ''John 3:16'', vr_text = ''For God so loved the world'',
                  vr_translation_id = ''WEB''\<rparr>))"
    by (simp only: u1 u2 r prod_eq_iff fst_conv snd_conv simp_thms)
  with h1 h2 h3 show ?thesis
    by blast
qed

end
